theory Spec2Isabelle
  imports Main "HOL-Library.Char_ord" "HOL-Library.List_Lexorder" "HOL-Library.AList"
begin

section \<open>Basic types\<close>

text \<open>
  A Go \<open>error\<close> is represented by its message; \<open>nil\<close> is \<open>None\<close> of
  \<open>error option\<close>. Go strings and byte slices are \<open>string\<close>s (lists of bytes); with
  \<open>Char_ord\<close> and \<open>List_Lexorder\<close> the order on \<open>string\<close> is the bytewise
  lexicographic order of Go's \<open><\<close> on strings.
\<close>

type_synonym error = string

text \<open>
  The outcome of a piece of Go code that returns a value or an error, or panics
  (an index out of range).
\<close>

datatype 'a result = Ok 'a | Err error | Panic string

text \<open>
  \<open>url.Values\<close> is a Go \<open>map[string][]string\<close>. It is an association list here: the
  keys are pairwise distinct, and the order of the entries is the order in which a
  \<open>range\<close> loop happens to visit them, which Go leaves unspecified. Assignment
  \<open>form[k] = v\<close> is \<open>AList.update\<close>.
\<close>

type_synonym Values = "(string \<times> string list) list"

text \<open>Indexing \<open>form[k]\<close>: a missing key yields the nil slice.\<close>

definition Values_index :: "Values \<Rightarrow> string \<Rightarrow> string list" where
  "Values_index form k = (case map_of form k of None \<Rightarrow> [] | Some vs \<Rightarrow> vs)"

text \<open>\<open>Values.Get\<close>: the first value of the key, or the empty string.\<close>

definition Values_Get :: "Values \<Rightarrow> string \<Rightarrow> string" where
  "Values_Get form k = (case Values_index form k of [] \<Rightarrow> [] | v # _ \<Rightarrow> v)"

text \<open>Decimal rendering of an integer (\<open>strconv.FormatInt(i, 10)\<close>, the verb \<open>%d\<close>).\<close>

fun digits_of :: "nat \<Rightarrow> string" where
  "digits_of n =
     (if n < 10 then [char_of (48 + n)] else digits_of (n div 10) @ [char_of (48 + n mod 10)])"

declare digits_of.simps [simp del]

definition FormatInt :: "int \<Rightarrow> string" where
  "FormatInt i = (if i < 0 then CHR ''-'' # digits_of (nat (- i)) else digits_of (nat i))"

text \<open>
  \<open>strings.Split(s, sep)\<close> for a separator of one byte: the pieces between the
  occurrences of the separator, so one piece more than there are occurrences.
\<close>

fun strings_Split :: "string \<Rightarrow> char \<Rightarrow> string list" where
  "strings_Split [] sep = [[]]"
| "strings_Split (c # cs) sep =
     (if c = sep then [] # strings_Split cs sep
      else (c # hd (strings_Split cs sep)) # tl (strings_Split cs sep))"

text \<open>\<open>strings.TrimLeft(s, cutset)\<close>: drops every leading byte that is in the cutset.\<close>

definition strings_TrimLeft :: "string \<Rightarrow> string \<Rightarrow> string" where
  "strings_TrimLeft s cutset = dropWhile (\<lambda>c. c \<in> set cutset) s"

section \<open>Identifiers\<close>

text \<open>\<open>MsgID\<close> wraps a nullable 64-bit integer; no arithmetic is done on it.\<close>

record MsgID =
  Int64 :: int
  Valid :: bool

definition NewMsgID :: "int \<Rightarrow> MsgID" where
  "NewMsgID i = \<lparr> Int64 = i, Valid = True \<rparr>"

definition NilMsgID :: MsgID where
  "NilMsgID = \<lparr> Int64 = 0, Valid = False \<rparr>"

definition MsgID_String :: "MsgID \<Rightarrow> string" where
  "MsgID_String i = (if Valid i then FormatInt (Int64 i) else ''null'')"

text \<open>A \<open>uuid.UUID\<close> is an array of 16 bytes; \<open>uuid.Nil\<close> has all bytes zero.\<close>

type_synonym UUID = "char list"

definition uuid_Nil :: UUID where
  "uuid_Nil = replicate 16 (CHR 0x00)"

datatype MsgUUID = MsgUUID UUID

definition NilMsgUUID :: MsgUUID where
  "NilMsgUUID = MsgUUID uuid_Nil"

section \<open>Canonical messages, statuses and channels\<close>

text \<open>
  Modelled from the spec: the declaration of \<open>courier.MsgStatusValue\<close> is not part of the
  modelled sources; the canonical status values are Wired, Sent, Delivered, Failed and
  Errored.
\<close>

datatype MsgStatusValue = MsgWired | MsgSent | MsgDelivered | MsgFailed | MsgErrored

text \<open>A configuration value is an \<open>interface{}\<close>; what matters is whether it is a string.\<close>

datatype ConfigValue = ConfigString string | ConfigInt int | ConfigBool bool | ConfigNil

text \<open>The type assertion \<open>v.(string)\<close> with its \<open>ok\<close> flag.\<close>

definition as_string :: "ConfigValue \<Rightarrow> string \<times> bool" where
  "as_string v = (case v of ConfigString s \<Rightarrow> (s, True) | _ \<Rightarrow> ([], False))"

text \<open>
  \<open>Channel\<close> is an interface; it is a record of the methods the handler calls.
\<close>

record Channel =
  ChannelType :: string
  UUID :: string
  Address :: string
  IsScheme :: "string \<Rightarrow> bool"
  CallbackDomain :: "string \<Rightarrow> string"
  ConfigForKey :: "string \<Rightarrow> ConfigValue \<Rightarrow> ConfigValue"
  StringConfigForKey :: "string \<Rightarrow> string \<Rightarrow> string"

type_synonym URN = string

text \<open>The methods of the \<open>Msg\<close> interface that the handler reads or sets.\<close>

record Msg =
  ID :: MsgID
  Text :: string
  Attachments :: "string list"
  ExternalID :: string
  URN :: URN
  Channel :: Channel

definition WithExternalID :: "Msg \<Rightarrow> string \<Rightarrow> Msg" where
  "WithExternalID m externalID = m\<lparr> ExternalID := externalID \<rparr>"

text \<open>
  The handler calls \<open>WithAttachment\<close> for its effect and drops the value it returns: the
  message is a reference that the call updates in place.
\<close>

definition WithAttachment :: "Msg \<Rightarrow> string \<Rightarrow> Msg" where
  "WithAttachment m url = m\<lparr> Attachments := Attachments m @ [url] \<rparr>"

text \<open>The record of one HTTP exchange; only the response body is inspected.\<close>

record RequestResponse =
  RR_Body :: "string option"

text \<open>\<open>[]byte(rr.Body)\<close>: a nil body is the empty byte slice.\<close>

definition body_bytes :: "RequestResponse \<Rightarrow> string" where
  "body_bytes rr = (case RR_Body rr of None \<Rightarrow> [] | Some b \<Rightarrow> b)"

record ChannelLog =
  Description :: string
  LogRR :: RequestResponse
  LogError :: string

definition NewChannelLogFromRR :: "string \<Rightarrow> RequestResponse \<Rightarrow> ChannelLog" where
  "NewChannelLogFromRR description rr = \<lparr> Description = description, LogRR = rr, LogError = [] \<rparr>"

text \<open>
  Modelled from the spec: \<open>ChannelLog.WithError\<close> is not part of the modelled sources;
  it returns the log carrying an error annotation (none when the error is nil).
\<close>

definition WithError :: "ChannelLog \<Rightarrow> string \<Rightarrow> error option \<Rightarrow> ChannelLog" where
  "WithError log description err =
     (case err of None \<Rightarrow> log | Some e \<Rightarrow> log\<lparr> Description := description, LogError := e \<rparr>)"

record MsgStatus =
  StatusID :: MsgID
  StatusExternalID :: string
  Status :: MsgStatusValue
  Logs :: "ChannelLog list"

definition SetStatus :: "MsgStatus \<Rightarrow> MsgStatusValue \<Rightarrow> MsgStatus" where
  "SetStatus st v = st\<lparr> Status := v \<rparr>"

definition SetExternalID :: "MsgStatus \<Rightarrow> string \<Rightarrow> MsgStatus" where
  "SetExternalID st externalID = st\<lparr> StatusExternalID := externalID \<rparr>"

definition AddLog :: "MsgStatus \<Rightarrow> ChannelLog \<Rightarrow> MsgStatus" where
  "AddLog st log = st\<lparr> Logs := Logs st @ [log] \<rparr>"

text \<open>
  The status holds a pointer to the log it was given, so an annotation made on the log
  after \<open>AddLog\<close> shows in the status: it lands on the last log.
\<close>

definition annotate_last_log :: "MsgStatus \<Rightarrow> string \<Rightarrow> error \<Rightarrow> MsgStatus" where
  "annotate_last_log st description e =
     (case rev (Logs st) of [] \<Rightarrow> st
      | l # ls \<Rightarrow> st\<lparr> Logs := rev ls @ [WithError l description (Some e)] \<rparr>)"

section \<open>The backend\<close>

text \<open>
  The calls made on \<open>h.Backend()\<close>, in order, with their arguments (the context and the
  channel left out).
\<close>

datatype backend_call =
    NewIncomingMsg URN string
  | NewMsgStatusForID MsgID MsgStatusValue
  | NewMsgStatusForExternalID string MsgStatusValue
  | StopMsgContact MsgID

text \<open>
  Modelled from the spec: the backend is an external collaborator; its constructors
  return a message for the channel, address and text, and a status for the message
  identifier or external identifier and the status value.
\<close>

definition backend_NewIncomingMsg :: "Channel \<Rightarrow> URN \<Rightarrow> string \<Rightarrow> Msg" where
  "backend_NewIncomingMsg channel urn text =
     \<lparr> ID = NilMsgID, Text = text, Attachments = [], ExternalID = [], URN = urn, Channel = channel \<rparr>"

definition backend_NewMsgStatusForID :: "Channel \<Rightarrow> MsgID \<Rightarrow> MsgStatusValue \<Rightarrow> MsgStatus" where
  "backend_NewMsgStatusForID channel msgID v =
     \<lparr> StatusID = msgID, StatusExternalID = [], Status = v, Logs = [] \<rparr>"

definition backend_NewMsgStatusForExternalID :: "Channel \<Rightarrow> string \<Rightarrow> MsgStatusValue \<Rightarrow> MsgStatus" where
  "backend_NewMsgStatusForExternalID channel externalID v =
     \<lparr> StatusID = NilMsgID, StatusExternalID = externalID, Status = v, Logs = [] \<rparr>"

section \<open>Requests and forms\<close>

text \<open>
  An inbound \<open>http.Request\<close>: the header lookup, the outcome of \<open>ParseForm\<close> and the
  form it leaves in \<open>PostForm\<close>, the host, the request URI and the query lookup.
\<close>

record Request =
  Header_Get :: "string \<Rightarrow> string"
  ParseForm :: "error option"
  PostForm :: Values
  Host :: string
  RequestURI :: string
  Query_Get :: "string \<Rightarrow> string"

record moForm =
  MessageSID :: string
  AccountSID :: string
  From :: string
  FromCountry :: string
  To :: string
  ToCountry :: string
  Body :: string
  NumMedia :: int

record statusForm =
  status_MessageSID :: string
  MessageStatus :: string
  ErrorCode :: string

text \<open>
  An outbound request: the form is kept as it is (the body on the wire is
  \<open>form.Encode()\<close>), with the basic-auth pair and the headers set on it.
\<close>

record HTTPRequest =
  Method :: string
  URL :: string
  Form :: Values
  BasicAuth :: "string \<times> string"
  Headers :: "(string \<times> string) list"

section \<open>Library functions\<close>

text \<open>
  Functions and constants of other packages that the handler calls and whose code is not
  part of the modelled sources: Go's standard library (\<open>crypto/hmac\<close> with
  \<open>crypto/sha1\<close>, \<open>encoding/base64\<close>, \<open>strings.ToLower\<close>, \<open>strconv.ParseInt\<close>), the
  JSON parser, the URN and UUID libraries, and the helper packages \<open>handlers\<close> and
  \<open>utils\<close>. They are parameters of the model. A Go function returning a value and an
  error is a sum (\<open>Inl\<close> the error), or a pair where the handler reads the value
  without looking at the error.
\<close>

record lib =
  hmac_sha1 :: "string \<Rightarrow> string \<Rightarrow> string"
  base64_StdEncoding :: "string \<Rightarrow> string"
  ToLower :: "string \<Rightarrow> string"
  ParseInt :: "string \<Rightarrow> error + int"
  GetInt :: "string \<Rightarrow> string \<Rightarrow> int \<times> error option"
  GetString :: "string \<Rightarrow> string \<Rightarrow> error + string"
  ConfigAuthToken :: string
  WhatsAppScheme :: string
  NewWhatsAppURN :: "string \<Rightarrow> error + URN"
  NewTelURNForCountry :: "string \<Rightarrow> string \<Rightarrow> error + URN"
  URN_Path :: "URN \<Rightarrow> string"
  FromString :: "string \<Rightarrow> UUID \<times> error option"
  SplitMsg :: "string \<Rightarrow> int \<Rightarrow> string list"
  SplitAttachment :: "string \<Rightarrow> string \<times> string"
  AddURLPath :: "string \<Rightarrow> string list \<Rightarrow> error + string"
  DecodePossibleBase64 :: "string \<Rightarrow> string"
  DecodeAndValidateForm_moForm :: "Request \<Rightarrow> error + moForm"
  DecodeAndValidateForm_statusForm :: "Request \<Rightarrow> error + statusForm"

text \<open>
  \<open>utils.MakeHTTPRequest\<close>: the network answers the request of segment \<open>i\<close> of a send
  with a response record and possibly an error.
\<close>

type_synonym network = "nat \<Rightarrow> HTTPRequest \<Rightarrow> RequestResponse \<times> error option"

text \<open>\<open>NewMsgUUIDFromString\<close> drops the error of the parser.\<close>

definition NewMsgUUIDFromString :: "lib \<Rightarrow> string \<Rightarrow> MsgUUID" where
  "NewMsgUUIDFromString L uuidString = (let (uuid, _) = FromString L uuidString in MsgUUID uuid)"

section \<open>The Twilio handler\<close>

definition configAccountSID :: string where "configAccountSID = ''account_sid''"
definition configMessagingServiceSID :: string where "configMessagingServiceSID = ''messaging_service_sid''"
definition configSendURL :: string where "configSendURL = ''send_url''"
definition signatureHeader :: string where "signatureHeader = ''X-Twilio-Signature''"
definition forwardedPathHeader :: string where "forwardedPathHeader = ''X-Forwarded-Path''"
definition maxMsgLength :: int where "maxMsgLength = 1600"
definition sendURL :: string where "sendURL = ''https://api.twilio.com/2010-04-01/Accounts''"

text \<open>The error code Twilio returns when a contact has sent "stop".\<close>

definition errorStopped :: int where "errorStopped = 21610"

record Config =
  Domain :: string
  IgnoreDeliveryReports :: bool

record Server =
  Server_Config :: Config

record handler =
  server :: Server
  ignoreDeliveryReports :: bool

text \<open>
  \<open>Initialize\<close> stores the server, saves whether delivery reports are ignored and
  registers the two routes (method and action), which are returned here.
\<close>

definition Initialize :: "handler \<Rightarrow> Server \<Rightarrow> handler \<times> (string \<times> string) list \<times> error option" where
  "Initialize h s =
     (let h = h\<lparr> server := s \<rparr>;
          h = h\<lparr> ignoreDeliveryReports := IgnoreDeliveryReports (Server_Config s) \<rparr>
      in (h, [(''POST'', ''receive''), (''POST'', ''status'')], None))"

definition statusMapping :: "string \<rightharpoonup> MsgStatusValue" where
  "statusMapping = map_of
     [(''queued'', MsgSent),
      (''failed'', MsgFailed),
      (''sent'', MsgSent),
      (''delivered'', MsgDelivered),
      (''undelivered'', MsgFailed)]"

subsection \<open>Request signing\<close>

text \<open>
  \<open>twCalculateSignature\<close>: the buffer is threaded through the two nested loops; the keys
  are collected by ranging over the map and then sorted.
\<close>

definition twCalculateSignature :: "lib \<Rightarrow> string \<Rightarrow> Values \<Rightarrow> string \<Rightarrow> error + string" where
  "twCalculateSignature L url form authToken =
     (let buffer = url;
          keys = fold (\<lambda>k ks. ks @ [k]) (map fst form) [];
          keys = sort keys;
          buffer = fold (\<lambda>k buf. fold (\<lambda>v b. b @ v) (Values_index form k) (buf @ k)) keys buffer;
          hash = hmac_sha1 L authToken buffer;
          encoded = base64_StdEncoding L hash
      in Inr encoded)"

text \<open>
  The reference definition, following the words of the specification: the URL, then for
  each parameter key in ascending order the key followed by the concatenation of its
  values, keyed-hashed with the secret and base64-encoded. It is a function of the
  mapping alone.
\<close>

definition canonical_string :: "string \<Rightarrow> (string \<rightharpoonup> string list) \<Rightarrow> string" where
  "canonical_string url params =
     url @ concat (map (\<lambda>k. k @ concat (the (params k))) (sorted_list_of_set (dom params)))"

definition signature_reference :: "lib \<Rightarrow> string \<Rightarrow> (string \<rightharpoonup> string list) \<Rightarrow> string \<Rightarrow> string" where
  "signature_reference L url params secret =
     base64_StdEncoding L (hmac_sha1 L secret (canonical_string url params))"

text \<open>
  \<open>validateSignature\<close>. \<open>hmac.Equal\<close> returns whether the two byte slices are equal;
  its running time is not modelled.
\<close>

definition validateSignature :: "lib \<Rightarrow> Channel \<Rightarrow> Request \<Rightarrow> error option" where
  "validateSignature L channel r =
     (let actual = Header_Get r signatureHeader in
      if actual = [] then Some ''missing request signature''
      else case ParseForm r of
        Some err \<Rightarrow> Some err
      | None \<Rightarrow>
         (let confAuth = ConfigForKey channel (ConfigAuthToken L) (ConfigString []);
              (authToken, isStr) = as_string confAuth
          in if \<not> isStr \<or> authToken = [] then Some ''invalid or missing auth token in config''
             else
              (let path = RequestURI r;
                   proxyPath = Header_Get r forwardedPathHeader;
                   path = (if proxyPath \<noteq> [] then proxyPath else path);
                   url = ''https://'' @ Host r @ path
               in case twCalculateSignature L url (PostForm r) authToken of
                    Inl err \<Rightarrow> Some err
                  | Inr expected \<Rightarrow>
                      if \<not> (expected = actual) then Some ''invalid request signature''
                      else None)))"

subsection \<open>Inbound handlers\<close>

text \<open>
  What a handler function hands back: an error returned as it is, or the call of the
  helper of package \<open>handlers\<close> that writes the response (the helpers themselves are not
  part of the modelled sources), or a panic.
\<close>

datatype handler_result =
    ReturnError error
  | WriteAndLogRequestError error
  | WriteAndLogRequestIgnored string
  | WriteMsgsAndResponse "Msg list"
  | WriteMsgStatusAndResponse MsgStatus
  | HandlerPanic string

text \<open>
  The address of a message on a WhatsApp channel: the second piece of the split, without
  its leading plus signs. Indexing \<open>parts[1]\<close> panics when there is no second piece.
\<close>

definition whatsapp_identifier :: "string \<Rightarrow> string result" where
  "whatsapp_identifier from =
     (let parts = strings_Split from CHR '':'' in
      if length parts \<le> 1 then Panic ''index out of range''
      else Ok (strings_TrimLeft (parts ! 1) ''+''))"

definition create_urn :: "lib \<Rightarrow> Channel \<Rightarrow> moForm \<Rightarrow> URN result" where
  "create_urn L channel form =
     (if IsScheme channel (WhatsAppScheme L) then
        (case whatsapp_identifier (From form) of
           Panic p \<Rightarrow> Panic p
         | Err e \<Rightarrow> Err e
         | Ok path \<Rightarrow> (case NewWhatsAppURN L path of Inl err \<Rightarrow> Err err | Inr urn \<Rightarrow> Ok urn))
      else
        (case NewTelURNForCountry L (From form) (FromCountry form) of
           Inl err \<Rightarrow> Err err
         | Inr urn \<Rightarrow> Ok urn))"

definition receiveMessage :: "lib \<Rightarrow> handler \<Rightarrow> Channel \<Rightarrow> Request \<Rightarrow> handler_result \<times> backend_call list" where
  "receiveMessage L h channel r =
     (case validateSignature L channel r of
        Some err \<Rightarrow> (WriteAndLogRequestError err, [])
      | None \<Rightarrow>
        (case DecodeAndValidateForm_moForm L r of
           Inl err \<Rightarrow> (WriteAndLogRequestError err, [])
         | Inr form \<Rightarrow>
           (case create_urn L channel form of
              Panic p \<Rightarrow> (HandlerPanic p, [])
            | Err err \<Rightarrow> (WriteAndLogRequestError err, [])
            | Ok urn \<Rightarrow>
               (let body = (if Body form \<noteq> [] then DecodePossibleBase64 L (Body form) else Body form);
                    msg = WithExternalID (backend_NewIncomingMsg channel urn body) (MessageSID form);
                    msg = fold (\<lambda>i m. WithAttachment m (Values_Get (PostForm r) (''MediaUrl'' @ FormatInt (int i))))
                            [0 ..< nat (NumMedia form)] msg
                in (WriteMsgsAndResponse [msg], [NewIncomingMsg urn body])))))"

definition unknown_status_error :: "string \<Rightarrow> error" where
  "unknown_status_error s =
     ''unknown status '' @ [CHR 0x27] @ s @ [CHR 0x27] @
     '', must be one of '' @ [CHR 0x27] @ ''queued'' @ [CHR 0x27] @ '', '' @ [CHR 0x27] @ ''failed'' @ [CHR 0x27] @
     '', '' @ [CHR 0x27] @ ''sent'' @ [CHR 0x27] @ '', '' @ [CHR 0x27] @ ''delivered'' @ [CHR 0x27] @
     '', or '' @ [CHR 0x27] @ ''undelivered'' @ [CHR 0x27]"

text \<open>
  \<open>receiveStatus\<close>. The status starts as nil; an \<open>id\<close> query parameter that parses gives
  the status for that identifier (one that does not parse is only logged), and a status
  still nil is built from the external identifier.
\<close>

definition receiveStatus :: "lib \<Rightarrow> handler \<Rightarrow> Channel \<Rightarrow> Request \<Rightarrow> handler_result \<times> backend_call list" where
  "receiveStatus L h channel r =
     (case validateSignature L channel r of
        Some err \<Rightarrow> (ReturnError err, [])
      | None \<Rightarrow>
        (case DecodeAndValidateForm_statusForm L r of
           Inl err \<Rightarrow> (WriteAndLogRequestIgnored ''no msg status, ignoring'', [])
         | Inr form \<Rightarrow>
           (case statusMapping (MessageStatus form) of
              None \<Rightarrow> (WriteAndLogRequestError (unknown_status_error (MessageStatus form)), [])
            | Some msgStatus \<Rightarrow>
               if ignoreDeliveryReports h \<and> msgStatus \<noteq> MsgFailed
               then (WriteAndLogRequestIgnored ''ignoring non error delivery report'', [])
               else
                (let idString = Query_Get r ''id'';
                     (status, calls) =
                        (if idString \<noteq> [] then
                           (case ParseInt L idString of
                              Inl err \<Rightarrow> (None, [])
                            | Inr msgID \<Rightarrow>
                                (Some (backend_NewMsgStatusForID channel (NewMsgID msgID) msgStatus),
                                 [NewMsgStatusForID (NewMsgID msgID) msgStatus]))
                         else (None, []));
                     (status, calls) =
                        (case status of
                           None \<Rightarrow>
                             (backend_NewMsgStatusForExternalID channel (status_MessageSID form) msgStatus,
                              calls @ [NewMsgStatusForExternalID (status_MessageSID form) msgStatus])
                         | Some st \<Rightarrow> (st, calls))
                 in (WriteMsgStatusAndResponse status, calls)))))"

subsection \<open>Sending\<close>

text \<open>What a send does to the outside: the requests put on the wire and the backend calls.\<close>

record effects =
  sent :: "HTTPRequest list"
  calls :: "backend_call list"

definition callbackURL_of :: "lib \<Rightarrow> handler \<Rightarrow> Msg \<Rightarrow> string" where
  "callbackURL_of L h msg =
     (let callbackDomain = CallbackDomain (Channel msg) (Domain (Server_Config (server h)))
      in ''https://'' @ callbackDomain @ ''/c/'' @ ToLower L (ChannelType (Channel msg)) @ ''/'' @
         UUID (Channel msg) @ ''/status?id='' @ FormatInt (Int64 (ID msg)) @ ''&action=callback'')"

text \<open>
  The form of segment \<open>i\<close>. On a WhatsApp channel \<open>form["From"][0]\<close> is rewritten; when a
  messaging service is configured the form has no \<open>From\<close> and the index panics.
\<close>

definition segment_form :: "lib \<Rightarrow> Msg \<Rightarrow> string \<Rightarrow> nat \<Rightarrow> string \<Rightarrow> Values result" where
  "segment_form L msg callbackURL i part =
     (let channel = Channel msg;
          form = [(''To'', [URN_Path L (URN msg)]), (''Body'', [part]), (''StatusCallback'', [callbackURL])];
          form = (if length (Attachments msg) > 0 \<and> i = 0
                  then (let (_, mediaURL) = SplitAttachment L (Attachments msg ! 0)
                        in AList.update ''MediaUrl'' [mediaURL] form)
                  else form);
          serviceSID = StringConfigForKey channel configMessagingServiceSID [];
          form = (if serviceSID \<noteq> [] then AList.update ''MessagingServiceSid'' [serviceSID] form
                  else AList.update ''From'' [Address channel] form)
      in if IsScheme channel (WhatsAppScheme L) then
           (case Values_index form ''To'' of
              [] \<Rightarrow> Panic ''index out of range''
            | to # tos \<Rightarrow>
               (let form = AList.update ''To'' ((WhatsAppScheme L @ '':+'' @ to) # tos) form
                in case Values_index form ''From'' of
                     [] \<Rightarrow> Panic ''index out of range''
                   | from # froms \<Rightarrow>
                       Ok (AList.update ''From'' ((WhatsAppScheme L @ '':'' @ from) # froms) form)))
         else Ok form)"

definition segment_request :: "lib \<Rightarrow> Msg \<Rightarrow> string \<Rightarrow> string \<Rightarrow> string \<Rightarrow> nat \<Rightarrow> string \<Rightarrow> HTTPRequest result" where
  "segment_request L msg callbackURL accountSID accountToken i part =
     (case segment_form L msg callbackURL i part of
        Panic p \<Rightarrow> Panic p
      | Err e \<Rightarrow> Err e
      | Ok form \<Rightarrow>
         (let baseSendURL = StringConfigForKey (Channel msg) configSendURL sendURL
          in case AddURLPath L baseSendURL [accountSID, ''Messages.json''] of
               Inl err \<Rightarrow> Err err
             | Inr sendURL' \<Rightarrow>
                 Ok \<lparr> Method = ''POST'', URL = sendURL', Form = form,
                      BasicAuth = (accountSID, accountToken),
                      Headers = [(''Content-Type'', ''application/x-www-form-urlencoded''),
                                 (''Accept'', ''application/json'')] \<rparr>))"

text \<open>One turn of the loop either goes on to the next segment or leaves the function.\<close>

datatype step = Continue MsgStatus effects | Halt "MsgStatus result" effects

definition error_code_message :: "int \<Rightarrow> error" where
  "error_code_message errorCode =
     ''received error code from twilio '' @ [CHR 0x27] @ FormatInt errorCode @ [CHR 0x27]"

definition classify :: "lib \<Rightarrow> Msg \<Rightarrow> nat \<Rightarrow> RequestResponse \<Rightarrow> error option \<Rightarrow> MsgStatus \<Rightarrow> effects \<Rightarrow> step" where
  "classify L msg i rr err status eff =
     (let errorCode = (if err \<noteq> None \<and> RR_Body rr \<noteq> None then fst (GetInt L (body_bytes rr) ''code'') else 0)
      in if err \<noteq> None \<and> RR_Body rr \<noteq> None \<and> errorCode \<noteq> 0 then
           (let (status, eff) =
                  (if errorCode = errorStopped
                   then (SetStatus status MsgFailed, eff\<lparr> calls := calls eff @ [StopMsgContact (ID msg)] \<rparr>)
                   else (status, eff));
                status = annotate_last_log status ''Message Send Error'' (error_code_message errorCode)
            in Halt (Ok status) eff)
         else if err \<noteq> None then Halt (Ok status) eff
         else
           (case GetString L (body_bytes rr) ''sid'' of
              Inl e \<Rightarrow> Halt (Ok (annotate_last_log status ''Message Send Error'' ''unable to get sid from body'')) eff
            | Inr externalID \<Rightarrow>
               (let status = SetStatus status MsgWired;
                    status = (if i = 0 then SetExternalID status externalID else status)
                in Continue status eff)))"

definition send_part :: "lib \<Rightarrow> network \<Rightarrow> Msg \<Rightarrow> string \<Rightarrow> string \<Rightarrow> string \<Rightarrow> nat \<Rightarrow> string \<Rightarrow> MsgStatus \<Rightarrow> effects \<Rightarrow> step" where
  "send_part L net msg callbackURL accountSID accountToken i part status eff =
     (case segment_request L msg callbackURL accountSID accountToken i part of
        Panic p \<Rightarrow> Halt (Panic p) eff
      | Err err \<Rightarrow> Halt (Err err) eff
      | Ok req \<Rightarrow>
         (let (rr, err) = net i req;
              eff = eff\<lparr> sent := sent eff @ [req] \<rparr>;
              log = WithError (NewChannelLogFromRR ''Message Sent'' rr) ''Message Send Error'' err;
              status = AddLog status log
          in classify L msg i rr err status eff))"

fun send_parts :: "lib \<Rightarrow> network \<Rightarrow> Msg \<Rightarrow> string \<Rightarrow> string \<Rightarrow> string \<Rightarrow> nat \<Rightarrow> string list \<Rightarrow> MsgStatus \<Rightarrow> effects \<Rightarrow> MsgStatus result \<times> effects" where
  "send_parts L net msg callbackURL accountSID accountToken i [] status eff = (Ok status, eff)"
| "send_parts L net msg callbackURL accountSID accountToken i (part # parts) status eff =
     (case send_part L net msg callbackURL accountSID accountToken i part status eff of
        Halt res eff' \<Rightarrow> (res, eff')
      | Continue status' eff' \<Rightarrow>
          send_parts L net msg callbackURL accountSID accountToken (Suc i) parts status' eff')"

definition SendMsg :: "lib \<Rightarrow> network \<Rightarrow> handler \<Rightarrow> Msg \<Rightarrow> MsgStatus result \<times> effects" where
  "SendMsg L net h msg =
     (let callbackURL = callbackURL_of L h msg;
          accountSID = StringConfigForKey (Channel msg) configAccountSID []
      in if accountSID = [] then (Err ''missing account sid for twilio channel'', \<lparr> sent = [], calls = [] \<rparr>)
         else
          (let accountToken = StringConfigForKey (Channel msg) (ConfigAuthToken L) []
           in if accountToken = [] then (Err ''missing account auth token for twilio channel'', \<lparr> sent = [], calls = [] \<rparr>)
              else
               (let status = backend_NewMsgStatusForID (Channel msg) (ID msg) MsgErrored;
                    eff = \<lparr> sent = [], calls = [NewMsgStatusForID (ID msg) MsgErrored] \<rparr>;
                    parts = SplitMsg L (Text msg) maxMsgLength
                in send_parts L net msg callbackURL accountSID accountToken 0 parts status eff)))"

section \<open>Vocabulary of the properties\<close>

text \<open>
  The request of segment \<open>i\<close> of a send, as \<open>SendMsg\<close> builds it, and the answer of the
  network to it (none when building the request fails).
\<close>

definition credentials_present :: "lib \<Rightarrow> Msg \<Rightarrow> bool" where
  "credentials_present L msg =
     (StringConfigForKey (Channel msg) configAccountSID [] \<noteq> [] \<and>
      StringConfigForKey (Channel msg) (ConfigAuthToken L) [] \<noteq> [])"

definition segments :: "lib \<Rightarrow> Msg \<Rightarrow> string list" where
  "segments L msg = SplitMsg L (Text msg) maxMsgLength"

definition request_of :: "lib \<Rightarrow> handler \<Rightarrow> Msg \<Rightarrow> nat \<Rightarrow> HTTPRequest result" where
  "request_of L h msg i =
     segment_request L msg (callbackURL_of L h msg)
       (StringConfigForKey (Channel msg) configAccountSID [])
       (StringConfigForKey (Channel msg) (ConfigAuthToken L) [])
       i (segments L msg ! i)"

definition exchange :: "lib \<Rightarrow> network \<Rightarrow> handler \<Rightarrow> Msg \<Rightarrow> nat \<Rightarrow> (RequestResponse \<times> error option) option" where
  "exchange L net h msg i = (case request_of L h msg i of Ok req \<Rightarrow> Some (net i req) | _ \<Rightarrow> None)"

text \<open>
  The code that the JSON parser reads from the body of an answer under the key \<open>code\<close>,
  whether or not the call returned an error, and what it means for a segment to succeed:
  the call returns no error and an external identifier is read from the body.
\<close>

definition response_code :: "lib \<Rightarrow> RequestResponse \<times> error option \<Rightarrow> int" where
  "response_code L resp = fst (GetInt L (body_bytes (fst resp)) ''code'')"

definition segment_succeeds :: "lib \<Rightarrow> RequestResponse \<times> error option \<Rightarrow> bool" where
  "segment_succeeds L resp =
     (snd resp = None \<and> (case GetString L (body_bytes (fst resp)) ''sid'' of Inr _ \<Rightarrow> True | Inl _ \<Rightarrow> False))"

definition answer_is :: "(RequestResponse \<times> error option \<Rightarrow> bool) \<Rightarrow> (RequestResponse \<times> error option) option \<Rightarrow> bool" where
  "answer_is P a = (case a of None \<Rightarrow> False | Some resp \<Rightarrow> P resp)"

definition result_status :: "MsgStatus result \<Rightarrow> MsgStatusValue option" where
  "result_status res = (case res of Ok st \<Rightarrow> Some (Status st) | _ \<Rightarrow> None)"

definition result_external_id :: "MsgStatus result \<Rightarrow> string option" where
  "result_external_id res = (case res of Ok st \<Rightarrow> Some (StatusExternalID st) | _ \<Rightarrow> None)"

text \<open>The external identifier that an answer carries (empty when there is none).\<close>

definition external_id_of :: "lib \<Rightarrow> RequestResponse \<times> error option \<Rightarrow> string" where
  "external_id_of L resp = (case GetString L (body_bytes (fst resp)) ''sid'' of Inr sid \<Rightarrow> sid | Inl _ \<Rightarrow> [])"

fun step_effects :: "step \<Rightarrow> effects" where
  "step_effects (Continue status eff) = eff"
| "step_effects (Halt res eff) = eff"

text \<open>The URL that is signed: the forwarded-path header, when present, replaces the path.\<close>

definition signed_url :: "Request \<Rightarrow> string" where
  "signed_url r =
     ''https://'' @ Host r @
       (if Header_Get r forwardedPathHeader \<noteq> [] then Header_Get r forwardedPathHeader else RequestURI r)"

section \<open>A concrete environment\<close>

text \<open>
  Stand-ins for the library functions, to run the handler on concrete inputs: a keyed
  hash and an encoder that leave their input readable, a segmenter that cuts the text at
  bars, a parser that knows the bodies used below.
\<close>

definition after_colon :: "string \<Rightarrow> string" where
  "after_colon s = drop 1 (dropWhile (\<lambda>c. c \<noteq> CHR '':'') s)"

definition demo_lib :: lib where
  "demo_lib =
     \<lparr> hmac_sha1 = (\<lambda>key msg. key @ ''|'' @ msg),
       base64_StdEncoding = (\<lambda>bs. ''b64('' @ bs @ '')''),
       ToLower = (\<lambda>s. if s = ''T'' then ''t'' else s),
       ParseInt = (\<lambda>s. if s = ''42'' then Inr 42 else Inl ''invalid syntax''),
       GetInt = (\<lambda>body key.
          if key = ''code'' \<and> (body = ''code=21610'' \<or> body = ''sid=SM1;code=21610'') then (21610, None)
          else if key = ''code'' \<and> (body = ''code=30007'' \<or> body = ''sid=SM1;code=30007'') then (30007, None)
          else (0, Some ''key path not found'')),
       GetString = (\<lambda>body key.
          if key = ''sid'' \<and> (body = ''sid=SM1'' \<or> body = ''sid=SM1;code=21610'' \<or> body = ''sid=SM1;code=30007'')
          then Inr ''SM1''
          else if key = ''sid'' \<and> body = ''sid=SM2'' then Inr ''SM2''
          else Inl ''key path not found''),
       ConfigAuthToken = ''auth_token'',
       WhatsAppScheme = ''whatsapp'',
       NewWhatsAppURN = (\<lambda>path. if path = [] then Inl ''invalid whatsapp id'' else Inr (''whatsapp:'' @ path)),
       NewTelURNForCountry = (\<lambda>number country. if number = [] then Inl ''invalid tel number'' else Inr (''tel:'' @ number)),
       URN_Path = after_colon,
       FromString = (\<lambda>s. (uuid_Nil, Some ''uuid: incorrect UUID length'')),
       SplitMsg = (\<lambda>text max. strings_Split text CHR ''|''),
       SplitAttachment = (\<lambda>a. (takeWhile (\<lambda>c. c \<noteq> CHR '':'') a, after_colon a)),
       AddURLPath = (\<lambda>base paths. Inr (base @ concat (map (\<lambda>p. ''/'' @ p) paths))),
       DecodePossibleBase64 = (\<lambda>s. s),
       DecodeAndValidateForm_moForm = (\<lambda>r.
          if Values_Get (PostForm r) ''MessageSID'' = [] \<or> Values_Get (PostForm r) ''AccountSID'' = [] \<or>
             Values_Get (PostForm r) ''From'' = [] \<or> Values_Get (PostForm r) ''To'' = []
          then Inl ''field required''
          else Inr \<lparr> MessageSID = Values_Get (PostForm r) ''MessageSID'',
                     AccountSID = Values_Get (PostForm r) ''AccountSID'',
                     From = Values_Get (PostForm r) ''From'',
                     FromCountry = Values_Get (PostForm r) ''FromCountry'',
                     To = Values_Get (PostForm r) ''To'',
                     ToCountry = Values_Get (PostForm r) ''ToCountry'',
                     Body = Values_Get (PostForm r) ''Body'',
                     NumMedia = 0 \<rparr>),
       DecodeAndValidateForm_statusForm = (\<lambda>r.
          if Values_Get (PostForm r) ''MessageSID'' = [] \<or> Values_Get (PostForm r) ''MessageStatus'' = []
          then Inl ''field required''
          else Inr \<lparr> status_MessageSID = Values_Get (PostForm r) ''MessageSID'',
                     MessageStatus = Values_Get (PostForm r) ''MessageStatus'',
                     ErrorCode = Values_Get (PostForm r) ''ErrorCode'' \<rparr>) \<rparr>"

text \<open>
  Modelled from the spec: an implementation of the channel interface is not part of the
  modelled sources; a channel has a type code, a UUID, an address, the URN schemes it
  supports and a string-keyed configuration whose lookups take typed defaults.
\<close>

definition mk_channel :: "string \<Rightarrow> string \<Rightarrow> string \<Rightarrow> string list \<Rightarrow> (string \<times> ConfigValue) list \<Rightarrow> Channel" where
  "mk_channel type uuid address schemes config =
     \<lparr> ChannelType = type, UUID = uuid, Address = address,
       IsScheme = (\<lambda>scheme. schemes = [scheme]),
       CallbackDomain = (\<lambda>fallback. fallback),
       ConfigForKey = (\<lambda>key dflt. case map_of config key of None \<Rightarrow> dflt | Some v \<Rightarrow> v),
       StringConfigForKey = (\<lambda>key dflt. case map_of config key of Some (ConfigString s) \<Rightarrow> s | _ \<Rightarrow> dflt) \<rparr>"

definition demo_channel :: Channel where
  "demo_channel = mk_channel ''T'' ''8eb23e93'' ''+12065551212'' [''tel'']
     [(''account_sid'', ConfigString ''AC1''), (''auth_token'', ConfigString ''tok'')]"

definition demo_whatsapp_channel :: Channel where
  "demo_whatsapp_channel = mk_channel ''T'' ''8eb23e93'' ''+12065551212'' [''whatsapp'']
     [(''account_sid'', ConfigString ''AC1''), (''auth_token'', ConfigString ''tok'')]"

definition demo_channel_without_token :: Channel where
  "demo_channel_without_token = mk_channel ''T'' ''8eb23e93'' ''+12065551212'' [''tel'']
     [(''account_sid'', ConfigString ''AC1'')]"

definition demo_channel_numeric_token :: Channel where
  "demo_channel_numeric_token = mk_channel ''T'' ''8eb23e93'' ''+12065551212'' [''tel'']
     [(''account_sid'', ConfigString ''AC1''), (''auth_token'', ConfigInt 7)]"

definition demo_handler :: handler where
  "demo_handler = \<lparr> server = \<lparr> Server_Config = \<lparr> Domain = ''courier.example'', IgnoreDeliveryReports = False \<rparr> \<rparr>,
                    ignoreDeliveryReports = False \<rparr>"

definition demo_ignoring_server :: Server where
  "demo_ignoring_server = \<lparr> Server_Config = \<lparr> Domain = ''courier.example'', IgnoreDeliveryReports = True \<rparr> \<rparr>"

text \<open>A request with the given signature header and posted form.\<close>

definition mk_request :: "string \<Rightarrow> string \<Rightarrow> Values \<Rightarrow> Request" where
  "mk_request signature uri form =
     \<lparr> Header_Get = (\<lambda>name. if name = ''X-Twilio-Signature'' then signature else []),
       ParseForm = None,
       PostForm = form,
       Host = ''courier.example'',
       RequestURI = uri,
       Query_Get = (\<lambda>name. []) \<rparr>"

definition demo_status_form :: "string \<Rightarrow> Values" where
  "demo_status_form status = [(''MessageSID'', [''SM1'']), (''MessageStatus'', [status])]"

definition demo_status_request :: "string \<Rightarrow> Request" where
  "demo_status_request status =
     mk_request (''b64(tok|https://courier.example/statusMessageSIDSM1MessageStatus'' @ status @ '')'')
       ''/status'' (demo_status_form status)"

definition demo_message_form :: "string \<Rightarrow> Values" where
  "demo_message_form from =
     [(''MessageSID'', [''SM1'']), (''AccountSID'', [''AC1'']), (''From'', [from]), (''To'', [''+12065551212'']),
      (''Body'', [''hi''])]"

definition demo_message_request :: "string \<Rightarrow> Request" where
  "demo_message_request from =
     mk_request (''b64(tok|https://courier.example/receiveAccountSIDAC1BodyhiFrom'' @ from @ ''MessageSIDSM1To+12065551212)'')
       ''/receive'' (demo_message_form from)"

text \<open>An outgoing message of two segments with one attachment.\<close>

definition demo_msg :: Msg where
  "demo_msg =
     \<lparr> ID = NewMsgID 10, Text = ''hello|world'', Attachments = [''image/png:https://x.example/y.png''],
       ExternalID = [], URN = ''tel:+250788383383'', Channel = demo_channel \<rparr>"

definition answer_ok :: "string \<Rightarrow> RequestResponse \<times> error option" where
  "answer_ok sid = (\<lparr> RR_Body = Some (''sid='' @ sid) \<rparr>, None)"

definition answer_code :: "string \<Rightarrow> RequestResponse \<times> error option" where
  "answer_code code = (\<lparr> RR_Body = Some (''code='' @ code) \<rparr>, Some ''received non 200 status: 400'')"

text \<open>An answer without an error whose body holds an external identifier and a code.\<close>

definition answer_ok_with_code :: "string \<Rightarrow> RequestResponse \<times> error option" where
  "answer_ok_with_code code = (\<lparr> RR_Body = Some (''sid=SM1;code='' @ code) \<rparr>, None)"

definition answer_no_response :: "RequestResponse \<times> error option" where
  "answer_no_response = (\<lparr> RR_Body = None \<rparr>, Some ''connection refused'')"

definition net_all_ok :: network where
  "net_all_ok i req = (if i = 0 then answer_ok ''SM1'' else answer_ok ''SM2'')"

definition net_second_rejected :: network where
  "net_second_rejected i req = (if i = 0 then answer_ok ''SM1'' else answer_code ''30007'')"

definition net_second_stopped :: network where
  "net_second_stopped i req = (if i = 0 then answer_ok ''SM1'' else answer_code ''21610'')"

definition net_first_ok_with_code :: "string \<Rightarrow> network" where
  "net_first_ok_with_code code i req = (if i = 0 then answer_ok_with_code code else answer_ok ''SM2'')"

definition net_first_unreachable :: network where
  "net_first_unreachable i req = (if i = 0 then answer_no_response else answer_ok ''SM2'')"

section \<open>Request signing\<close>

lemma fold_snoc_keys: "fold (\<lambda>k ks. ks @ [k]) xs acc = acc @ xs"
  by (induction xs arbitrary: acc) simp_all

lemma fold_append_values: "fold (\<lambda>v b. b @ v) vs buf = buf @ concat vs"
  by (induction vs arbitrary: buf) simp_all

lemma fold_write_keys:
  "fold (\<lambda>k buf. fold (\<lambda>v b. b @ v) (f k) (buf @ k)) ks buf = buf @ concat (map (\<lambda>k. k @ concat (f k)) ks)"
  by (induction ks arbitrary: buf) (simp_all add: fold_append_values)

lemma sorted_keys_of_form:
  assumes "distinct (map fst form)"
  shows "sort (map fst form) = sorted_list_of_set (dom (map_of form))"
proof -
  have "sorted_list_of_set (dom (map_of form)) = sorted_list_of_set (set (map fst form))"
    by (simp add: dom_map_of_conv_image_fst)
  also have "\<dots> = sort (remdups (map fst form))"
    by (rule sorted_list_of_set_sort_remdups)
  also have "\<dots> = sort (map fst form)"
    using assms by (simp add: distinct_remdups_id)
  finally show ?thesis by simp
qed

lemma Values_index_the:
  "k \<in> dom (map_of form) \<Longrightarrow> Values_index form k = the (map_of form k)"
  by (auto simp: Values_index_def)

lemma twCalculateSignature_canonical:
  assumes "distinct (map fst form)"
  shows "twCalculateSignature L url form secret = Inr (signature_reference L url (map_of form) secret)"
proof -
  let ?ks = "sorted_list_of_set (dom (map_of form))"
  have fin: "finite (dom (map_of form))" by (rule finite_dom_map_of)
  have "map (\<lambda>k. k @ concat (Values_index form k)) ?ks = map (\<lambda>k. k @ concat (the (map_of form k))) ?ks"
    using fin by (intro map_cong refl) (simp add: Values_index_the)
  then have "concat (map (\<lambda>k. k @ concat (Values_index form k)) (sort (map fst form)))
      = concat (map (\<lambda>k. k @ concat (the (map_of form k))) ?ks)"
    by (simp only: sorted_keys_of_form [OF assms])
  then show ?thesis
    by (simp add: twCalculateSignature_def signature_reference_def canonical_string_def
        fold_snoc_keys fold_write_keys)
qed

text \<open>
  C2. For every URL, every form mapping (an association list with distinct keys, in any
  iteration order) and every secret, the computed signature is the reference signature of
  the underlying mapping; hence two forms that hold the same mapping, whatever the order
  of their entries, have the same signature.
\<close>

theorem C2_signature_refines_reference:
  "distinct (map fst form) \<longrightarrow>
     twCalculateSignature L url form secret = Inr (signature_reference L url (map_of form) secret) \<and>
     (\<forall>form'. distinct (map fst form') \<and> map_of form' = map_of form \<longrightarrow>
        twCalculateSignature L url form' secret = twCalculateSignature L url form secret)"
proof
  assume d: "distinct (map fst form)"
  show "twCalculateSignature L url form secret = Inr (signature_reference L url (map_of form) secret) \<and>
     (\<forall>form'. distinct (map fst form') \<and> map_of form' = map_of form \<longrightarrow>
        twCalculateSignature L url form' secret = twCalculateSignature L url form secret)"
  proof (intro conjI allI impI)
    show "twCalculateSignature L url form secret = Inr (signature_reference L url (map_of form) secret)"
      by (rule twCalculateSignature_canonical [OF d])
  next
    fix form' :: Values
    assume h: "distinct (map fst form') \<and> map_of form' = map_of form"
    then have "twCalculateSignature L url form' secret = Inr (signature_reference L url (map_of form') secret)"
      by (simp add: twCalculateSignature_canonical)
    with h show "twCalculateSignature L url form' secret = twCalculateSignature L url form secret"
      by (simp add: twCalculateSignature_canonical [OF d])
  qed
qed

text \<open>
  C2 at a form of two keys, visited in both orders.
\<close>

theorem C2_signature_refines_reference_witness:
  "distinct (map fst [(''To'', [''+1'']), (''Body'', [''hi'', ''yo''])]) \<and>
   twCalculateSignature demo_lib ''https://h/p'' [(''To'', [''+1'']), (''Body'', [''hi'', ''yo''])] ''key''
     = Inr ''b64(key|https://h/pBodyhiyoTo+1)'' \<and>
   twCalculateSignature demo_lib ''https://h/p'' [(''Body'', [''hi'', ''yo'']), (''To'', [''+1''])] ''key''
     = twCalculateSignature demo_lib ''https://h/p'' [(''To'', [''+1'']), (''Body'', [''hi'', ''yo''])] ''key'' \<and>
   twCalculateSignature demo_lib ''https://h/p'' [(''To'', [''+1'']), (''Body'', [''hi'', ''yo''])] ''key''
     = Inr (signature_reference demo_lib ''https://h/p'' (map_of [(''To'', [''+1'']), (''Body'', [''hi'', ''yo''])]) ''key'')"
proof -
  have d: "distinct (map fst [(''To'', [''+1'']), (''Body'', [''hi'', ''yo''])])" by simp
  have d': "distinct (map fst [(''Body'', [''hi'', ''yo'']), (''To'', [''+1''])])" by simp
  have m: "map_of [(''Body'', [''hi'', ''yo'']), (''To'', [''+1''])] = map_of [(''To'', [''+1'']), (''Body'', [''hi'', ''yo''])]"
    by (rule ext) simp
  have v: "twCalculateSignature demo_lib ''https://h/p'' [(''To'', [''+1'']), (''Body'', [''hi'', ''yo''])] ''key''
     = Inr ''b64(key|https://h/pBodyhiyoTo+1)''"
    by (simp add: twCalculateSignature_def demo_lib_def Values_index_def)
  from C2_signature_refines_reference [where form = "[(''To'', [''+1'']), (''Body'', [''hi'', ''yo''])]" and L = demo_lib and url = "''https://h/p''" and secret = "''key''"] d d' m v
  show ?thesis by simp
qed

section \<open>Signature verification\<close>

lemma validateSignature_missing:
  "Header_Get r signatureHeader = [] \<Longrightarrow> validateSignature L channel r = Some ''missing request signature''"
  by (simp add: validateSignature_def)

lemma validateSignature_config:
  assumes "Header_Get r signatureHeader \<noteq> []" "ParseForm r = None"
    and "\<forall>tok. tok \<noteq> [] \<longrightarrow> ConfigForKey channel (ConfigAuthToken L) (ConfigString []) \<noteq> ConfigString tok"
  shows "validateSignature L channel r = Some ''invalid or missing auth token in config''"
  using assms
  by (cases "ConfigForKey channel (ConfigAuthToken L) (ConfigString [])")
     (auto simp: validateSignature_def as_string_def Let_def)

lemma validateSignature_mismatch:
  assumes "Header_Get r signatureHeader \<noteq> []" "ParseForm r = None"
    and "ConfigForKey channel (ConfigAuthToken L) (ConfigString []) = ConfigString tok" "tok \<noteq> []"
    and "twCalculateSignature L (signed_url r) (PostForm r) tok \<noteq> Inr (Header_Get r signatureHeader)"
  shows "validateSignature L channel r = Some ''invalid request signature''"
  using assms
  by (auto simp: validateSignature_def as_string_def Let_def signed_url_def twCalculateSignature_def
           split: sum.splits)

lemma rejected_before_backend:
  "validateSignature L channel r = Some err \<Longrightarrow>
     receiveMessage L h channel r = (WriteAndLogRequestError err, []) \<and>
     receiveStatus L h channel r = (ReturnError err, [])"
  by (simp add: receiveMessage_def receiveStatus_def)

text \<open>
  C3, as amended. The three checks of signature verification are made in order. A request
  whose signature header is absent (or empty) fails with the missing-signature error, and
  both handlers reject it without any backend call. When the header is present and the
  form parses, a configured secret that is missing, empty or not a string fails with the
  configuration error; and with a non-empty string secret, a header that differs from the
  expected signature (computed over the URL, the forwarded-path header replacing the path
  when present) fails with the invalid-signature error. Every verification error is
  handed back by both handlers with no backend call made.
\<close>

theorem C3_signature_verification_outcomes:
  "(Header_Get r signatureHeader = [] \<longrightarrow>
      validateSignature L channel r = Some ''missing request signature'' \<and>
      receiveMessage L h channel r = (WriteAndLogRequestError ''missing request signature'', []) \<and>
      receiveStatus L h channel r = (ReturnError ''missing request signature'', [])) \<and>
   (Header_Get r signatureHeader \<noteq> [] \<and> ParseForm r = None \<and>
    (\<forall>tok. tok \<noteq> [] \<longrightarrow> ConfigForKey channel (ConfigAuthToken L) (ConfigString []) \<noteq> ConfigString tok) \<longrightarrow>
      validateSignature L channel r = Some ''invalid or missing auth token in config'') \<and>
   (Header_Get r signatureHeader \<noteq> [] \<and> ParseForm r = None \<and>
    ConfigForKey channel (ConfigAuthToken L) (ConfigString []) = ConfigString secret \<and> secret \<noteq> [] \<and>
    twCalculateSignature L (signed_url r) (PostForm r) secret \<noteq> Inr (Header_Get r signatureHeader) \<longrightarrow>
      validateSignature L channel r = Some ''invalid request signature'') \<and>
   (\<forall>err. validateSignature L channel r = Some err \<longrightarrow>
      receiveMessage L h channel r = (WriteAndLogRequestError err, []) \<and>
      receiveStatus L h channel r = (ReturnError err, []))"
proof (intro conjI impI allI)
  assume a: "Header_Get r signatureHeader = []"
  then show m: "validateSignature L channel r = Some ''missing request signature''"
    by (rule validateSignature_missing)
  from rejected_before_backend [OF m]
  show "receiveMessage L h channel r = (WriteAndLogRequestError ''missing request signature'', [])"
    and "receiveStatus L h channel r = (ReturnError ''missing request signature'', [])"
    by simp_all
next
  assume "Header_Get r signatureHeader \<noteq> [] \<and> ParseForm r = None \<and>
    (\<forall>tok. tok \<noteq> [] \<longrightarrow> ConfigForKey channel (ConfigAuthToken L) (ConfigString []) \<noteq> ConfigString tok)"
  then show "validateSignature L channel r = Some ''invalid or missing auth token in config''"
    by (intro validateSignature_config) simp_all
next
  assume "Header_Get r signatureHeader \<noteq> [] \<and> ParseForm r = None \<and>
    ConfigForKey channel (ConfigAuthToken L) (ConfigString []) = ConfigString secret \<and> secret \<noteq> [] \<and>
    twCalculateSignature L (signed_url r) (PostForm r) secret \<noteq> Inr (Header_Get r signatureHeader)"
  then show "validateSignature L channel r = Some ''invalid request signature''"
    by (intro validateSignature_mismatch [where tok = secret]) simp_all
next
  fix err assume v: "validateSignature L channel r = Some err"
  from rejected_before_backend [OF v]
  show "receiveMessage L h channel r = (WriteAndLogRequestError err, [])"
    and "receiveStatus L h channel r = (ReturnError err, [])"
    by simp_all
qed

lemma demo_config_simps:
  "ConfigForKey demo_channel (ConfigAuthToken demo_lib) (ConfigString []) = ConfigString ''tok''"
  "ConfigForKey demo_channel_without_token (ConfigAuthToken demo_lib) (ConfigString []) = ConfigString []"
  "ConfigForKey demo_channel_numeric_token (ConfigAuthToken demo_lib) (ConfigString []) = ConfigInt 7"
  by (simp_all add: demo_channel_def demo_channel_without_token_def demo_channel_numeric_token_def
        mk_channel_def demo_lib_def)

lemma mk_request_simps:
  "Header_Get (mk_request sg uri form) signatureHeader = sg"
  "Header_Get (mk_request sg uri form) forwardedPathHeader = []"
  "ParseForm (mk_request sg uri form) = None"
  "PostForm (mk_request sg uri form) = form"
  "Host (mk_request sg uri form) = ''courier.example''"
  "RequestURI (mk_request sg uri form) = uri"
  "Query_Get (mk_request sg uri form) name = []"
  by (simp_all add: mk_request_def signatureHeader_def forwardedPathHeader_def)

lemma demo_status_signature:
  "twCalculateSignature demo_lib ''https://courier.example/status'' (demo_status_form s) ''tok''
     = Inr (''b64(tok|https://courier.example/statusMessageSIDSM1MessageStatus'' @ s @ '')'')"
  by (simp add: twCalculateSignature_def demo_status_form_def demo_lib_def Values_index_def)

lemma demo_status_request_valid:
  "validateSignature demo_lib demo_channel (demo_status_request s) = None"
  by (simp add: validateSignature_def demo_status_request_def mk_request_simps demo_config_simps
      as_string_def demo_status_signature)

text \<open>
  C3, as stated, fails: on a channel without a configured secret, a request without the
  signature header fails with the missing-signature error, not with the configuration
  error.
\<close>

theorem C3_counterexample:
  "ConfigForKey demo_channel_without_token (ConfigAuthToken demo_lib) (ConfigString []) = ConfigString [] \<and>
   Header_Get (mk_request [] ''/status'' (demo_status_form ''sent'')) signatureHeader = [] \<and>
   validateSignature demo_lib demo_channel_without_token (mk_request [] ''/status'' (demo_status_form ''sent''))
     = Some ''missing request signature'' \<and>
   validateSignature demo_lib demo_channel_without_token (mk_request [] ''/status'' (demo_status_form ''sent''))
     \<noteq> Some ''invalid or missing auth token in config''"
  by (simp add: validateSignature_def mk_request_simps demo_config_simps)

text \<open>
  The amended statement of C3 at three concrete requests: one unsigned, one signed for a
  channel whose secret is a number, one with a forged signature.
\<close>

theorem C3_signature_verification_outcomes_witness:
  "(Header_Get (mk_request [] ''/status'' (demo_status_form ''sent'')) signatureHeader = [] \<and>
    validateSignature demo_lib demo_channel (mk_request [] ''/status'' (demo_status_form ''sent''))
      = Some ''missing request signature'' \<and>
    receiveMessage demo_lib demo_handler demo_channel (mk_request [] ''/status'' (demo_status_form ''sent''))
      = (WriteAndLogRequestError ''missing request signature'', [])) \<and>
   (Header_Get (demo_status_request ''sent'') signatureHeader \<noteq> [] \<and>
    ParseForm (demo_status_request ''sent'') = None \<and>
    validateSignature demo_lib demo_channel_numeric_token (demo_status_request ''sent'')
      = Some ''invalid or missing auth token in config'') \<and>
   (twCalculateSignature demo_lib (signed_url (mk_request ''forged'' ''/status'' (demo_status_form ''sent'')))
      (PostForm (mk_request ''forged'' ''/status'' (demo_status_form ''sent''))) ''tok'' \<noteq> Inr ''forged'' \<and>
    validateSignature demo_lib demo_channel (mk_request ''forged'' ''/status'' (demo_status_form ''sent''))
      = Some ''invalid request signature'' \<and>
    receiveStatus demo_lib demo_handler demo_channel (mk_request ''forged'' ''/status'' (demo_status_form ''sent''))
      = (ReturnError ''invalid request signature'', []))"
proof -
  have a: "Header_Get (mk_request [] ''/status'' (demo_status_form ''sent'')) signatureHeader = []"
    by (simp add: mk_request_simps)
  have b: "Header_Get (demo_status_request ''sent'') signatureHeader \<noteq> [] \<and>
      ParseForm (demo_status_request ''sent'') = None \<and>
      (\<forall>tok. tok \<noteq> [] \<longrightarrow>
         ConfigForKey demo_channel_numeric_token (ConfigAuthToken demo_lib) (ConfigString []) \<noteq> ConfigString tok)"
    by (simp add: demo_status_request_def mk_request_simps demo_config_simps)
  have c: "Header_Get (mk_request ''forged'' ''/status'' (demo_status_form ''sent'')) signatureHeader \<noteq> [] \<and>
      ParseForm (mk_request ''forged'' ''/status'' (demo_status_form ''sent'')) = None \<and>
      ConfigForKey demo_channel (ConfigAuthToken demo_lib) (ConfigString []) = ConfigString ''tok'' \<and> ''tok'' \<noteq> [] \<and>
      twCalculateSignature demo_lib (signed_url (mk_request ''forged'' ''/status'' (demo_status_form ''sent'')))
        (PostForm (mk_request ''forged'' ''/status'' (demo_status_form ''sent''))) ''tok'' \<noteq> Inr ''forged''"
    by (simp add: mk_request_simps demo_config_simps signed_url_def demo_status_signature)
  have t1: "validateSignature demo_lib demo_channel (mk_request [] ''/status'' (demo_status_form ''sent''))
      = Some ''missing request signature'' \<and>
    receiveMessage demo_lib demo_handler demo_channel (mk_request [] ''/status'' (demo_status_form ''sent''))
      = (WriteAndLogRequestError ''missing request signature'', [])"
    using C3_signature_verification_outcomes
         [where r = "mk_request [] ''/status'' (demo_status_form ''sent'')" and L = demo_lib
            and channel = demo_channel and h = demo_handler] a
    by (simp add: mk_request_simps)
  have t2: "validateSignature demo_lib demo_channel_numeric_token (demo_status_request ''sent'')
      = Some ''invalid or missing auth token in config''"
    using C3_signature_verification_outcomes
         [where r = "demo_status_request ''sent''" and L = demo_lib
            and channel = demo_channel_numeric_token and h = demo_handler] b
    by (simp add: mk_request_simps)
  have t3: "validateSignature demo_lib demo_channel (mk_request ''forged'' ''/status'' (demo_status_form ''sent''))
      = Some ''invalid request signature''"
    using C3_signature_verification_outcomes
         [where r = "mk_request ''forged'' ''/status'' (demo_status_form ''sent'')" and L = demo_lib
            and channel = demo_channel and h = demo_handler and secret = "''tok''"] c
    by (simp add: mk_request_simps)
  have t4: "receiveStatus demo_lib demo_handler demo_channel (mk_request ''forged'' ''/status'' (demo_status_form ''sent''))
      = (ReturnError ''invalid request signature'', [])"
    using C3_signature_verification_outcomes
         [where r = "mk_request ''forged'' ''/status'' (demo_status_form ''sent'')" and L = demo_lib
            and channel = demo_channel and h = demo_handler and secret = "''tok''"] t3
    by (simp add: mk_request_simps)
  show ?thesis
    using a b c t1 t2 t3 t4 by (intro conjI) (simp_all only: simp_thms)
qed

section \<open>Status callbacks\<close>

lemma statusMapping_dom:
  "dom statusMapping = {''queued'', ''failed'', ''sent'', ''delivered'', ''undelivered''}"
  by (auto simp: statusMapping_def dom_def split: if_splits)

lemma statusMapping_values:
  "statusMapping ''queued'' = Some MsgSent"
  "statusMapping ''failed'' = Some MsgFailed"
  "statusMapping ''sent'' = Some MsgSent"
  "statusMapping ''delivered'' = Some MsgDelivered"
  "statusMapping ''undelivered'' = Some MsgFailed"
  by (simp_all add: statusMapping_def)

lemma receiveStatus_unknown:
  assumes "validateSignature L channel r = None"
    and "DecodeAndValidateForm_statusForm L r = Inr form"
    and "statusMapping (MessageStatus form) = None"
  shows "receiveStatus L h channel r = (WriteAndLogRequestError (unknown_status_error (MessageStatus form)), [])"
  using assms by (simp add: receiveStatus_def)

text \<open>
  C5. The status mapping is defined on exactly the five strings queued, failed, sent,
  delivered and undelivered, with the values Sent, Failed, Sent, Delivered and Failed;
  and a status callback that passes signature verification and decoding with any other
  status string is rejected with the unknown-status error, which names the string and the
  five allowed values, without any backend call.
\<close>

theorem C5_status_mapping_total:
  "dom statusMapping = {''queued'', ''failed'', ''sent'', ''delivered'', ''undelivered''} \<and>
   statusMapping ''queued'' = Some MsgSent \<and>
   statusMapping ''failed'' = Some MsgFailed \<and>
   statusMapping ''sent'' = Some MsgSent \<and>
   statusMapping ''delivered'' = Some MsgDelivered \<and>
   statusMapping ''undelivered'' = Some MsgFailed \<and>
   (validateSignature L channel r = None \<and>
    DecodeAndValidateForm_statusForm L r = Inr form \<and>
    MessageStatus form \<notin> {''queued'', ''failed'', ''sent'', ''delivered'', ''undelivered''} \<longrightarrow>
      receiveStatus L h channel r =
        (WriteAndLogRequestError
           (''unknown status '' @ [CHR 0x27] @ MessageStatus form @ [CHR 0x27] @
            '', must be one of '' @ [CHR 0x27] @ ''queued'' @ [CHR 0x27] @ '', '' @ [CHR 0x27] @ ''failed'' @ [CHR 0x27] @
            '', '' @ [CHR 0x27] @ ''sent'' @ [CHR 0x27] @ '', '' @ [CHR 0x27] @ ''delivered'' @ [CHR 0x27] @
            '', or '' @ [CHR 0x27] @ ''undelivered'' @ [CHR 0x27]), []))"
proof (intro conjI impI)
  assume a: "validateSignature L channel r = None \<and>
    DecodeAndValidateForm_statusForm L r = Inr form \<and>
    MessageStatus form \<notin> {''queued'', ''failed'', ''sent'', ''delivered'', ''undelivered''}"
  then have "MessageStatus form \<notin> dom statusMapping"
    by (simp add: statusMapping_dom)
  then have "statusMapping (MessageStatus form) = None"
    by (simp add: domIff)
  with a have "receiveStatus L h channel r = (WriteAndLogRequestError (unknown_status_error (MessageStatus form)), [])"
    by (intro receiveStatus_unknown) simp_all
  then show "receiveStatus L h channel r =
        (WriteAndLogRequestError
           (''unknown status '' @ [CHR 0x27] @ MessageStatus form @ [CHR 0x27] @
            '', must be one of '' @ [CHR 0x27] @ ''queued'' @ [CHR 0x27] @ '', '' @ [CHR 0x27] @ ''failed'' @ [CHR 0x27] @
            '', '' @ [CHR 0x27] @ ''sent'' @ [CHR 0x27] @ '', '' @ [CHR 0x27] @ ''delivered'' @ [CHR 0x27] @
            '', or '' @ [CHR 0x27] @ ''undelivered'' @ [CHR 0x27]), [])"
    by (simp only: unknown_status_error_def)
qed (simp_all only: statusMapping_dom statusMapping_values)

lemma demo_decode_status:
  "s \<noteq> [] \<Longrightarrow> DecodeAndValidateForm_statusForm demo_lib (demo_status_request s)
     = Inr \<lparr> status_MessageSID = ''SM1'', MessageStatus = s, ErrorCode = [] \<rparr>"
  by (simp add: demo_lib_def demo_status_request_def mk_request_simps demo_status_form_def
      Values_Get_def Values_index_def)

text \<open>
  C5 at a signed callback with the status string "bogus".
\<close>

theorem C5_status_mapping_total_witness:
  "validateSignature demo_lib demo_channel (demo_status_request ''bogus'') = None \<and>
   DecodeAndValidateForm_statusForm demo_lib (demo_status_request ''bogus'')
     = Inr \<lparr> status_MessageSID = ''SM1'', MessageStatus = ''bogus'', ErrorCode = [] \<rparr> \<and>
   ''bogus'' \<notin> {''queued'', ''failed'', ''sent'', ''delivered'', ''undelivered''} \<and>
   fst (receiveStatus demo_lib demo_handler demo_channel (demo_status_request ''bogus'')) =
     WriteAndLogRequestError
       (''unknown status '' @ [CHR 0x27] @ ''bogus'' @ [CHR 0x27] @
        '', must be one of '' @ [CHR 0x27] @ ''queued'' @ [CHR 0x27] @ '', '' @ [CHR 0x27] @ ''failed'' @ [CHR 0x27] @
        '', '' @ [CHR 0x27] @ ''sent'' @ [CHR 0x27] @ '', '' @ [CHR 0x27] @ ''delivered'' @ [CHR 0x27] @
        '', or '' @ [CHR 0x27] @ ''undelivered'' @ [CHR 0x27]) \<and>
   snd (receiveStatus demo_lib demo_handler demo_channel (demo_status_request ''bogus'')) = []"
proof -
  have a: "validateSignature demo_lib demo_channel (demo_status_request ''bogus'') = None"
    by (rule demo_status_request_valid)
  have b: "DecodeAndValidateForm_statusForm demo_lib (demo_status_request ''bogus'')
     = Inr \<lparr> status_MessageSID = ''SM1'', MessageStatus = ''bogus'', ErrorCode = [] \<rparr>"
    by (simp add: demo_decode_status)
  have c: "''bogus'' \<notin> {''queued'', ''failed'', ''sent'', ''delivered'', ''undelivered''}"
    by simp
  show ?thesis
    using C5_status_mapping_total
      [where L = demo_lib and channel = demo_channel and r = "demo_status_request ''bogus''"
         and h = demo_handler
         and form = "\<lparr> status_MessageSID = ''SM1'', MessageStatus = ''bogus'', ErrorCode = [] \<rparr>"]
      a b c
    by simp
qed

section \<open>Ignoring delivery reports\<close>

lemma Initialize_ignore:
  "ignoreDeliveryReports (fst (Initialize h s)) = IgnoreDeliveryReports (Server_Config s)"
  by (simp add: Initialize_def)

lemma receiveStatus_ignored:
  assumes "validateSignature L channel r = None"
    and "DecodeAndValidateForm_statusForm L r = Inr form"
    and "statusMapping (MessageStatus form) = Some v"
    and "ignoreDeliveryReports h" "v \<noteq> MsgFailed"
  shows "receiveStatus L h channel r = (WriteAndLogRequestIgnored ''ignoring non error delivery report'', [])"
  using assms by (simp add: receiveStatus_def)

lemma receiveStatus_failed_processed:
  assumes "validateSignature L channel r = None"
    and "DecodeAndValidateForm_statusForm L r = Inr form"
    and "statusMapping (MessageStatus form) = Some MsgFailed"
  shows "\<exists>st cs. receiveStatus L h channel r = (WriteMsgStatusAndResponse st, cs) \<and>
           Status st = MsgFailed \<and>
           (cs = [NewMsgStatusForExternalID (status_MessageSID form) MsgFailed] \<or>
            (\<exists>i. cs = [NewMsgStatusForID (NewMsgID i) MsgFailed]))"
  using assms
  by (auto simp: receiveStatus_def Let_def backend_NewMsgStatusForID_def
        backend_NewMsgStatusForExternalID_def split: sum.splits)

text \<open>
  C9. A handler initialised from a server configured to ignore delivery reports has the
  flag set; then a verified and decoded status callback whose mapped status is not Failed
  is acknowledged as ignored with no backend call, while one whose mapped status is Failed
  is processed: a status with value Failed is built through the backend and written.
\<close>

theorem C9_failures_never_suppressed:
  "IgnoreDeliveryReports (Server_Config s) \<and>
   validateSignature L channel r = None \<and>
   DecodeAndValidateForm_statusForm L r = Inr form \<and>
   statusMapping (MessageStatus form) = Some v \<longrightarrow>
     ignoreDeliveryReports (fst (Initialize h s)) \<and>
     (v \<noteq> MsgFailed \<longrightarrow>
        receiveStatus L (fst (Initialize h s)) channel r =
          (WriteAndLogRequestIgnored ''ignoring non error delivery report'', [])) \<and>
     (v = MsgFailed \<longrightarrow>
        (\<exists>st cs. receiveStatus L (fst (Initialize h s)) channel r = (WriteMsgStatusAndResponse st, cs) \<and>
           Status st = MsgFailed \<and>
           (cs = [NewMsgStatusForExternalID (status_MessageSID form) MsgFailed] \<or>
            (\<exists>i. cs = [NewMsgStatusForID (NewMsgID i) MsgFailed]))))"
proof (intro impI conjI)
  assume a: "IgnoreDeliveryReports (Server_Config s) \<and>
   validateSignature L channel r = None \<and>
   DecodeAndValidateForm_statusForm L r = Inr form \<and>
   statusMapping (MessageStatus form) = Some v"
  then show i: "ignoreDeliveryReports (fst (Initialize h s))"
    by (simp add: Initialize_ignore)
  {
    assume "v \<noteq> MsgFailed"
    with a i show "receiveStatus L (fst (Initialize h s)) channel r =
          (WriteAndLogRequestIgnored ''ignoring non error delivery report'', [])"
      by (intro receiveStatus_ignored [where v = v and form = form]) simp_all
  }
  {
    assume "v = MsgFailed"
    with a show "\<exists>st cs. receiveStatus L (fst (Initialize h s)) channel r = (WriteMsgStatusAndResponse st, cs) \<and>
           Status st = MsgFailed \<and>
           (cs = [NewMsgStatusForExternalID (status_MessageSID form) MsgFailed] \<or>
            (\<exists>i. cs = [NewMsgStatusForID (NewMsgID i) MsgFailed]))"
      by (intro receiveStatus_failed_processed) simp_all
  }
qed

text \<open>
  C9 at two signed callbacks, "delivered" (ignored) and "undelivered" (processed).
\<close>

theorem C9_failures_never_suppressed_witness:
  "IgnoreDeliveryReports (Server_Config demo_ignoring_server) \<and>
   validateSignature demo_lib demo_channel (demo_status_request ''delivered'') = None \<and>
   statusMapping ''delivered'' = Some MsgDelivered \<and> MsgDelivered \<noteq> MsgFailed \<and>
   receiveStatus demo_lib (fst (Initialize demo_handler demo_ignoring_server)) demo_channel
       (demo_status_request ''delivered'')
     = (WriteAndLogRequestIgnored ''ignoring non error delivery report'', []) \<and>
   validateSignature demo_lib demo_channel (demo_status_request ''undelivered'') = None \<and>
   statusMapping ''undelivered'' = Some MsgFailed \<and>
   receiveStatus demo_lib (fst (Initialize demo_handler demo_ignoring_server)) demo_channel
       (demo_status_request ''undelivered'')
     = (WriteMsgStatusAndResponse
          \<lparr> StatusID = NilMsgID, StatusExternalID = ''SM1'', Status = MsgFailed, Logs = [] \<rparr>,
        [NewMsgStatusForExternalID ''SM1'' MsgFailed])"
proof -
  have s: "IgnoreDeliveryReports (Server_Config demo_ignoring_server)"
    by (simp add: demo_ignoring_server_def)
  have a1: "validateSignature demo_lib demo_channel (demo_status_request ''delivered'') = None"
    and a2: "validateSignature demo_lib demo_channel (demo_status_request ''undelivered'') = None"
    by (rule demo_status_request_valid)+
  have b1: "DecodeAndValidateForm_statusForm demo_lib (demo_status_request ''delivered'')
     = Inr \<lparr> status_MessageSID = ''SM1'', MessageStatus = ''delivered'', ErrorCode = [] \<rparr>"
    and b2: "DecodeAndValidateForm_statusForm demo_lib (demo_status_request ''undelivered'')
     = Inr \<lparr> status_MessageSID = ''SM1'', MessageStatus = ''undelivered'', ErrorCode = [] \<rparr>"
    by (simp_all add: demo_decode_status)
  have t1: "receiveStatus demo_lib (fst (Initialize demo_handler demo_ignoring_server)) demo_channel
       (demo_status_request ''delivered'')
     = (WriteAndLogRequestIgnored ''ignoring non error delivery report'', [])"
    using C9_failures_never_suppressed
      [where s = demo_ignoring_server and L = demo_lib and channel = demo_channel
         and r = "demo_status_request ''delivered''" and h = demo_handler and v = MsgDelivered
         and form = "\<lparr> status_MessageSID = ''SM1'', MessageStatus = ''delivered'', ErrorCode = [] \<rparr>"]
      s a1 b1
    by (simp add: statusMapping_values)
  have t3: "receiveStatus demo_lib (fst (Initialize demo_handler demo_ignoring_server)) demo_channel
       (demo_status_request ''undelivered'')
     = (WriteMsgStatusAndResponse
          \<lparr> StatusID = NilMsgID, StatusExternalID = ''SM1'', Status = MsgFailed, Logs = [] \<rparr>,
        [NewMsgStatusForExternalID ''SM1'' MsgFailed])"
  proof -
    have q: "Query_Get (demo_status_request ''undelivered'') ''id'' = []"
      by (simp add: demo_status_request_def mk_request_simps)
    show ?thesis
      by (simp add: receiveStatus_def a2 b2 q statusMapping_values Initialize_def
          backend_NewMsgStatusForExternalID_def)
  qed
  show ?thesis
    using s a1 a2 t1 t3 by (simp add: statusMapping_values)
qed

section \<open>Addresses without a delimiter\<close>

lemma strings_Split_no_sep: "sep \<notin> set s \<Longrightarrow> strings_Split s sep = [s]"
  by (induction s) auto

lemma whatsapp_identifier_no_delimiter:
  "CHR '':'' \<notin> set from \<Longrightarrow> whatsapp_identifier from = Panic ''index out of range''"
  by (simp add: whatsapp_identifier_def strings_Split_no_sep)

lemma demo_message_signature:
  "twCalculateSignature demo_lib ''https://courier.example/receive'' (demo_message_form from) ''tok''
     = Inr (''b64(tok|https://courier.example/receiveAccountSIDAC1BodyhiFrom'' @ from @ ''MessageSIDSM1To+12065551212)'')"
  by (simp add: twCalculateSignature_def demo_message_form_def demo_lib_def Values_index_def)

lemma demo_whatsapp_config:
  "ConfigForKey demo_whatsapp_channel (ConfigAuthToken demo_lib) (ConfigString []) = ConfigString ''tok''"
  "IsScheme demo_whatsapp_channel (WhatsAppScheme demo_lib)"
  by (simp_all add: demo_whatsapp_channel_def mk_channel_def demo_lib_def)

lemma demo_message_request_valid:
  "validateSignature demo_lib demo_whatsapp_channel (demo_message_request from) = None"
  by (simp add: validateSignature_def demo_message_request_def mk_request_simps demo_whatsapp_config
      as_string_def demo_message_signature)

lemma demo_decode_message:
  "from \<noteq> [] \<Longrightarrow> DecodeAndValidateForm_moForm demo_lib (demo_message_request from)
     = Inr \<lparr> MessageSID = ''SM1'', AccountSID = ''AC1'', From = from, FromCountry = [],
             To = ''+12065551212'', ToCountry = [], Body = ''hi'', NumMedia = 0 \<rparr>"
  by (simp add: demo_lib_def demo_message_request_def mk_request_simps demo_message_form_def
      Values_Get_def Values_index_def)

lemma receiveMessage_address_without_delimiter:
  assumes "validateSignature L channel r = None"
    and "DecodeAndValidateForm_moForm L r = Inr form"
    and "IsScheme channel (WhatsAppScheme L)"
    and "CHR '':'' \<notin> set (From form)"
  shows "receiveMessage L h channel r = (HandlerPanic ''index out of range'', [])"
  using assms
  by (simp add: receiveMessage_def create_urn_def whatsapp_identifier_no_delimiter)

text \<open>
  C6. On a WhatsApp channel, a correctly signed message whose From address contains no
  delimiter makes the handler panic on the index \<open>parts[1]\<close>: no URN validation error
  is returned to the caller.
\<close>

theorem C6_address_without_delimiter_panics:
  "receiveMessage demo_lib demo_handler demo_whatsapp_channel (demo_message_request ''12211414154'')
     = (HandlerPanic ''index out of range'', [])"
  by (simp add: receiveMessage_def demo_message_request_valid demo_decode_message create_urn_def
      demo_whatsapp_config whatsapp_identifier_no_delimiter)

lemma whatsapp_identifier_well_formed:
  assumes "CHR '':'' \<notin> set scheme" "CHR '':'' \<notin> set digits" "CHR ''+'' \<notin> set (take 1 digits)"
  shows "whatsapp_identifier (scheme @ '':+'' @ digits) = Ok digits"
proof -
  have "strings_Split (scheme @ '':+'' @ digits) CHR '':'' = [scheme, ''+'' @ digits]"
    using assms(1,2) by (induction scheme) (auto simp: strings_Split_no_sep)
  moreover have "dropWhile (\<lambda>c. c = CHR ''+'') digits = digits"
    using assms(3) by (cases digits) auto
  ultimately show ?thesis
    by (simp add: whatsapp_identifier_def strings_TrimLeft_def)
qed

section \<open>Message UUIDs from strings\<close>

text \<open>
  \<open>NewMsgUUIDFromString\<close> has no error to return: it wraps the value that the parser
  hands back and ignores the parser's error, so it yields the nil message UUID exactly when
  that value is the nil UUID.
\<close>

lemma NewMsgUUIDFromString_wraps_parser_value:
  "NewMsgUUIDFromString L s = MsgUUID (fst (FromString L s))"
  by (simp add: NewMsgUUIDFromString_def split: prod.splits)

lemma NewMsgUUIDFromString_nil_iff:
  "NewMsgUUIDFromString L s = NilMsgUUID \<longleftrightarrow> fst (FromString L s) = uuid_Nil"
  by (simp add: NewMsgUUIDFromString_wraps_parser_value NilMsgUUID_def)

section \<open>Sending\<close>

lemma Status_AddLog: "Status (AddLog st l) = Status st"
  and StatusExternalID_AddLog: "StatusExternalID (AddLog st l) = StatusExternalID st"
  by (simp_all add: AddLog_def)

lemma Status_annotate_last_log: "Status (annotate_last_log st d e) = Status st"
  by (simp add: annotate_last_log_def split: list.splits)

lemma classify_success:
  assumes "segment_succeeds L (rr, err)"
  shows "\<exists>st'. classify L msg i rr err st eff = Continue st' eff \<and> Status st' = MsgWired \<and>
           StatusExternalID st' = (if i = 0 then external_id_of L (rr, err) else StatusExternalID st)"
  using assms
  by (auto simp: classify_def segment_succeeds_def external_id_of_def SetStatus_def SetExternalID_def
        split: sum.splits)

lemma classify_opted_out:
  assumes "err \<noteq> None" "RR_Body rr \<noteq> None" "response_code L (rr, err) = errorStopped"
  shows "\<exists>st'. classify L msg i rr err st eff =
             Halt (Ok st') (eff\<lparr> calls := calls eff @ [StopMsgContact (ID msg)] \<rparr>) \<and>
           Status st' = MsgFailed"
  using assms
  by (auto simp: classify_def response_code_def errorStopped_def
        Status_annotate_last_log SetStatus_def)

lemma classify_rejected:
  assumes "err \<noteq> None" "RR_Body rr = None \<or> response_code L (rr, err) \<noteq> errorStopped"
  shows "\<exists>st'. classify L msg i rr err st eff = Halt (Ok st') eff \<and> Status st' = Status st"
  using assms
  by (auto simp: classify_def response_code_def Status_annotate_last_log Let_def)

lemma step_effects_classify:
  "sent (step_effects (classify L msg i rr err st eff)) = sent eff"
  by (auto simp: classify_def Let_def split: sum.splits)

lemma send_part_success:
  assumes "segment_request L msg cb sid tok i part = Ok req"
    and "segment_succeeds L (net i req)"
  shows "\<exists>st'. send_part L net msg cb sid tok i part st eff = Continue st' (eff\<lparr> sent := sent eff @ [req] \<rparr>) \<and>
           Status st' = MsgWired \<and>
           StatusExternalID st' = (if i = 0 then external_id_of L (net i req) else StatusExternalID st)"
proof -
  obtain rr err where n: "net i req = (rr, err)" by (cases "net i req")
  from classify_success [of L rr err msg i "AddLog st (WithError (NewChannelLogFromRR ''Message Sent'' rr) ''Message Send Error'' err)"
      "eff\<lparr> sent := sent eff @ [req] \<rparr>"] assms n
  show ?thesis
    by (auto simp: send_part_def StatusExternalID_AddLog)
qed

lemma send_part_opted_out:
  assumes "segment_request L msg cb sid tok i part = Ok req"
    and "snd (net i req) \<noteq> None" "RR_Body (fst (net i req)) \<noteq> None"
    and "response_code L (net i req) = errorStopped"
  shows "\<exists>st'. send_part L net msg cb sid tok i part st eff =
             Halt (Ok st') (eff\<lparr> sent := sent eff @ [req], calls := calls eff @ [StopMsgContact (ID msg)] \<rparr>) \<and>
           Status st' = MsgFailed"
proof -
  obtain rr err where n: "net i req = (rr, err)" by (cases "net i req")
  from classify_opted_out [where L = L and rr = rr and err = err and msg = msg and i = i
      and st = "AddLog st (WithError (NewChannelLogFromRR ''Message Sent'' rr) ''Message Send Error'' err)"
      and eff = "eff\<lparr> sent := sent eff @ [req] \<rparr>"] assms n
  show ?thesis
    by (simp add: send_part_def)
qed

lemma send_part_rejected:
  assumes "segment_request L msg cb sid tok i part = Ok req"
    and "snd (net i req) \<noteq> None"
    and "RR_Body (fst (net i req)) = None \<or> response_code L (net i req) \<noteq> errorStopped"
  shows "\<exists>st'. send_part L net msg cb sid tok i part st eff = Halt (Ok st') (eff\<lparr> sent := sent eff @ [req] \<rparr>) \<and>
           Status st' = Status st"
proof -
  obtain rr err where n: "net i req = (rr, err)" by (cases "net i req")
  from classify_rejected [where L = L and rr = rr and err = err and msg = msg and i = i
      and st = "AddLog st (WithError (NewChannelLogFromRR ''Message Sent'' rr) ''Message Send Error'' err)"
      and eff = "eff\<lparr> sent := sent eff @ [req] \<rparr>"] assms n
  show ?thesis
    by (simp add: send_part_def Status_AddLog)
qed

lemma send_part_sent:
  "(\<exists>req. segment_request L msg cb sid tok i part = Ok req \<and>
      sent (step_effects (send_part L net msg cb sid tok i part st eff)) = sent eff @ [req]) \<or>
   ((\<exists>res. send_part L net msg cb sid tok i part st eff = Halt res eff) \<and>
    (\<forall>req. segment_request L msg cb sid tok i part \<noteq> Ok req))"
  by (cases "segment_request L msg cb sid tok i part")
     (auto simp: send_part_def step_effects_classify split: prod.splits)

lemma send_parts_prefix:
  assumes "k \<le> length ps"
    and "\<forall>j<k. \<exists>req. segment_request L msg cb sid tok (i + j) (ps ! j) = Ok req \<and>
                    segment_succeeds L (net (i + j) req)"
  shows "\<exists>st' rs.
           send_parts L net msg cb sid tok i ps st eff =
             send_parts L net msg cb sid tok (i + k) (drop k ps) st' (eff\<lparr> sent := sent eff @ rs \<rparr>) \<and>
           length rs = k \<and>
           (\<forall>j<k. segment_request L msg cb sid tok (i + j) (ps ! j) = Ok (rs ! j)) \<and>
           Status st' = (if k = 0 then Status st else MsgWired) \<and>
           StatusExternalID st' =
             (if i = 0 \<and> 0 < k then external_id_of L (net 0 (rs ! 0)) else StatusExternalID st)"
  using assms
proof (induction k arbitrary: i ps st eff)
  case 0
  have "send_parts L net msg cb sid tok i ps st eff =
          send_parts L net msg cb sid tok (i + 0) (drop 0 ps) st (eff\<lparr> sent := sent eff @ [] \<rparr>)"
    by simp
  then show ?case by (intro exI [of _ st] exI [of _ "[]"]) simp
next
  case (Suc k)
  then obtain p ps' where ps: "ps = p # ps'" by (cases ps) auto
  from Suc.prems(2) [rule_format, of 0] ps
  obtain req where req: "segment_request L msg cb sid tok i p = Ok req" "segment_succeeds L (net i req)"
    by auto
  from send_part_success [where net = net and st = st and eff = eff, OF req]
  obtain st1 where st1:
    "send_part L net msg cb sid tok i p st eff = Continue st1 (eff\<lparr> sent := sent eff @ [req] \<rparr>)"
    "Status st1 = MsgWired"
    "StatusExternalID st1 = (if i = 0 then external_id_of L (net i req) else StatusExternalID st)"
    by blast
  have len: "k \<le> length ps'" using Suc.prems(1) ps by simp
  have hyp: "\<forall>j<k. \<exists>r. segment_request L msg cb sid tok (Suc i + j) (ps' ! j) = Ok r \<and>
                    segment_succeeds L (net (Suc i + j) r)"
  proof (intro allI impI)
    fix j assume "j < k"
    then have "Suc j < Suc k" by simp
    from Suc.prems(2) [rule_format, OF this] ps
    show "\<exists>r. segment_request L msg cb sid tok (Suc i + j) (ps' ! j) = Ok r \<and>
               segment_succeeds L (net (Suc i + j) r)"
      by simp
  qed
  from Suc.IH [OF len hyp, of st1 "eff\<lparr> sent := sent eff @ [req] \<rparr>"]
  obtain st' rs where ih:
    "send_parts L net msg cb sid tok (Suc i) ps' st1 (eff\<lparr> sent := sent eff @ [req] \<rparr>) =
       send_parts L net msg cb sid tok (Suc i + k) (drop k ps') st'
         (eff\<lparr> sent := sent eff @ [req] \<rparr>\<lparr> sent := sent (eff\<lparr> sent := sent eff @ [req] \<rparr>) @ rs \<rparr>)"
    "length rs = k"
    "\<forall>j<k. segment_request L msg cb sid tok (Suc i + j) (ps' ! j) = Ok (rs ! j)"
    "Status st' = (if k = 0 then Status st1 else MsgWired)"
    "StatusExternalID st' = StatusExternalID st1"
    by auto
  have run: "send_parts L net msg cb sid tok i ps st eff =
      send_parts L net msg cb sid tok (i + Suc k) (drop (Suc k) ps) st' (eff\<lparr> sent := sent eff @ (req # rs) \<rparr>)"
    using ps st1(1) ih(1) by simp
  have reqs: "\<forall>j<Suc k. segment_request L msg cb sid tok (i + j) (ps ! j) = Ok ((req # rs) ! j)"
  proof (intro allI impI)
    fix j assume j: "j < Suc k"
    show "segment_request L msg cb sid tok (i + j) (ps ! j) = Ok ((req # rs) ! j)"
    proof (cases j)
      case 0
      then show ?thesis using req(1) ps by simp
    next
      case (Suc j')
      with j have "j' < k" by simp
      with ih(3) have "segment_request L msg cb sid tok (Suc i + j') (ps' ! j') = Ok (rs ! j')" by simp
      then show ?thesis using Suc ps by simp
    qed
  qed
  have stat: "Status st' = MsgWired" using ih(4) st1(2) by simp
  have ext: "StatusExternalID st' =
      (if i = 0 \<and> 0 < Suc k then external_id_of L (net 0 ((req # rs) ! 0)) else StatusExternalID st)"
    using ih(5) st1(3) by simp
  show ?case
    using run ih(2) reqs stat ext
    by (intro exI [of _ st'] exI [of _ "req # rs"]) simp
qed

lemma send_parts_sent:
  "\<exists>rs. sent (snd (send_parts L net msg cb sid tok i ps st eff)) = sent eff @ rs \<and>
        length rs \<le> length ps \<and>
        (\<forall>j<length rs. segment_request L msg cb sid tok (i + j) (ps ! j) = Ok (rs ! j))"
proof (induction ps arbitrary: i st eff)
  case Nil
  show ?case by simp
next
  case (Cons p ps)
  show ?case
  proof (cases "send_part L net msg cb sid tok i p st eff")
    case (Halt res eff')
    from send_part_sent [of L msg cb sid tok i p net st eff] Halt
    consider req where "segment_request L msg cb sid tok i p = Ok req" "sent eff' = sent eff @ [req]"
      | "sent eff' = sent eff"
      by auto
    then show ?thesis
    proof cases
      case 1
      then show ?thesis using Halt by (intro exI [of _ "[req]"]) simp
    next
      case 2
      then show ?thesis using Halt by (intro exI [of _ "[]"]) simp
    qed
  next
    case (Continue st' eff')
    from send_part_sent [of L msg cb sid tok i p net st eff] Continue
    obtain req where req: "segment_request L msg cb sid tok i p = Ok req" "sent eff' = sent eff @ [req]"
      by auto
    from Cons.IH [of "Suc i" st' eff']
    obtain rs where rs:
      "sent (snd (send_parts L net msg cb sid tok (Suc i) ps st' eff')) = sent eff' @ rs"
      "length rs \<le> length ps"
      "\<forall>j<length rs. segment_request L msg cb sid tok (Suc i + j) (ps ! j) = Ok (rs ! j)"
      by blast
    have "\<forall>j<length (req # rs). segment_request L msg cb sid tok (i + j) ((p # ps) ! j) = Ok ((req # rs) ! j)"
    proof (intro allI impI)
      fix j assume j: "j < length (req # rs)"
      show "segment_request L msg cb sid tok (i + j) ((p # ps) ! j) = Ok ((req # rs) ! j)"
      proof (cases j)
        case 0
        then show ?thesis using req(1) by simp
      next
        case (Suc j')
        with j have "j' < length rs" by simp
        with rs(3) have "segment_request L msg cb sid tok (Suc i + j') (ps ! j') = Ok (rs ! j')" by simp
        then show ?thesis using Suc by simp
      qed
    qed
    then show ?thesis
      using Continue req(2) rs(1,2) by (intro exI [of _ "req # rs"]) simp
  qed
qed

lemma segment_form_media:
  assumes "segment_form L msg cb i part = Ok form"
  shows "map_of form ''MediaUrl'' =
           (if i = 0 \<and> Attachments msg \<noteq> [] then Some [snd (SplitAttachment L (Attachments msg ! 0))] else None)"
  using assms
  by (auto simp: segment_form_def Let_def update_conv' split: if_splits list.splits prod.splits)

text \<open>
  On a WhatsApp channel with a messaging service configured the form has no \<open>From\<close>
  entry, and building the form panics before anything is sent.
\<close>

lemma segment_form_whatsapp_service_panics:
  assumes "IsScheme (Channel msg) (WhatsAppScheme L)"
    and "StringConfigForKey (Channel msg) configMessagingServiceSID [] \<noteq> []"
  shows "segment_form L msg cb i part = Panic ''index out of range''"
  using assms
  by (auto simp: segment_form_def Let_def Values_index_def update_conv' split: prod.splits)

lemma segment_request_media:
  assumes "segment_request L msg cb sid tok i part = Ok req"
  shows "map_of (Form req) ''MediaUrl'' =
           (if i = 0 \<and> Attachments msg \<noteq> [] then Some [snd (SplitAttachment L (Attachments msg ! 0))] else None)"
proof -
  from assms obtain form where f: "segment_form L msg cb i part = Ok form" "Form req = form"
    by (auto simp: segment_request_def Let_def split: result.splits sum.splits)
  with segment_form_media [OF f(1)] show ?thesis by simp
qed

lemma segment_form_body:
  assumes "segment_form L msg cb i part = Ok form"
  shows "map_of form ''Body'' = Some [part]"
  using assms
  by (auto simp: segment_form_def Let_def update_conv' split: if_splits list.splits prod.splits)

lemma segment_request_body:
  assumes "segment_request L msg cb sid tok i part = Ok req"
  shows "map_of (Form req) ''Body'' = Some [part]"
proof -
  from assms obtain form where f: "segment_form L msg cb i part = Ok form" "Form req = form"
    by (auto simp: segment_request_def Let_def split: result.splits sum.splits)
  with segment_form_body [OF f(1)] show ?thesis by simp
qed

lemma SendMsg_with_credentials:
  assumes "credentials_present L msg"
  shows "SendMsg L net h msg =
           send_parts L net msg (callbackURL_of L h msg)
             (StringConfigForKey (Channel msg) configAccountSID [])
             (StringConfigForKey (Channel msg) (ConfigAuthToken L) [])
             0 (segments L msg)
             (backend_NewMsgStatusForID (Channel msg) (ID msg) MsgErrored)
             \<lparr> sent = [], calls = [NewMsgStatusForID (ID msg) MsgErrored] \<rparr>"
  using assms by (simp add: SendMsg_def credentials_present_def segments_def Let_def)

lemma SendMsg_without_credentials:
  assumes "\<not> credentials_present L msg"
  shows "sent (snd (SendMsg L net h msg)) = []"
  using assms by (auto simp: SendMsg_def credentials_present_def Let_def)

lemma answer_is_exchange:
  "answer_is P (exchange L net h msg i) \<longleftrightarrow>
     (\<exists>req. request_of L h msg i = Ok req \<and> P (net i req))"
  by (auto simp: answer_is_def exchange_def split: result.splits)

lemma SendMsg_sent:
  "\<exists>rs. sent (snd (SendMsg L net h msg)) = rs \<and> length rs \<le> length (segments L msg) \<and>
        (\<forall>j<length rs. request_of L h msg j = Ok (rs ! j))"
proof (cases "credentials_present L msg")
  case True
  from send_parts_sent [of L net msg "callbackURL_of L h msg"
      "StringConfigForKey (Channel msg) configAccountSID []"
      "StringConfigForKey (Channel msg) (ConfigAuthToken L) []" 0 "segments L msg"
      "backend_NewMsgStatusForID (Channel msg) (ID msg) MsgErrored"
      "\<lparr> sent = [], calls = [NewMsgStatusForID (ID msg) MsgErrored] \<rparr>"]
  show ?thesis
    by (simp add: SendMsg_with_credentials [OF True] request_of_def)
next
  case False
  then show ?thesis by (simp add: SendMsg_without_credentials)
qed

lemma SendMsg_media:
  assumes "i < length (sent (snd (SendMsg L net h msg)))"
  shows "map_of (Form (sent (snd (SendMsg L net h msg)) ! i)) ''MediaUrl'' =
           (if i = 0 \<and> Attachments msg \<noteq> [] then Some [snd (SplitAttachment L (Attachments msg ! 0))]
            else None)"
proof -
  from SendMsg_sent [of L net h msg] assms
  have "request_of L h msg i = Ok (sent (snd (SendMsg L net h msg)) ! i)" by simp
  then show ?thesis
    by (simp only: request_of_def segment_request_media)
qed

lemma SendMsg_body:
  assumes "i < length (sent (snd (SendMsg L net h msg)))"
  shows "map_of (Form (sent (snd (SendMsg L net h msg)) ! i)) ''Body'' = Some [segments L msg ! i]"
proof -
  from SendMsg_sent [of L net h msg] assms
  have "request_of L h msg i = Ok (sent (snd (SendMsg L net h msg)) ! i)" by simp
  then show ?thesis
    by (simp only: request_of_def segment_request_body)
qed

text \<open>The run up to the first segment that does not succeed.\<close>

lemma SendMsg_prefix:
  assumes c: "credentials_present L msg"
    and k: "k \<le> length (segments L msg)"
    and ok: "\<forall>i<k. answer_is (segment_succeeds L) (exchange L net h msg i)"
  shows "\<exists>st' rs.
           SendMsg L net h msg =
             send_parts L net msg (callbackURL_of L h msg)
               (StringConfigForKey (Channel msg) configAccountSID [])
               (StringConfigForKey (Channel msg) (ConfigAuthToken L) [])
               k (drop k (segments L msg)) st'
               \<lparr> sent = rs, calls = [NewMsgStatusForID (ID msg) MsgErrored] \<rparr> \<and>
           length rs = k \<and>
           (\<forall>j<k. request_of L h msg j = Ok (rs ! j)) \<and>
           Status st' = (if k = 0 then MsgErrored else MsgWired) \<and>
           (0 < k \<longrightarrow> StatusExternalID st' = external_id_of L (net 0 (rs ! 0)))"
proof -
  have hyp: "\<forall>j<k. \<exists>req. segment_request L msg (callbackURL_of L h msg)
               (StringConfigForKey (Channel msg) configAccountSID [])
               (StringConfigForKey (Channel msg) (ConfigAuthToken L) []) (0 + j) (segments L msg ! j) = Ok req \<and>
             segment_succeeds L (net (0 + j) req)"
    using ok by (simp add: answer_is_exchange request_of_def)
  let ?st = "backend_NewMsgStatusForID (Channel msg) (ID msg) MsgErrored"
  let ?eff = "\<lparr> sent = [], calls = [NewMsgStatusForID (ID msg) MsgErrored] \<rparr>"
  from send_parts_prefix [OF k hyp, of ?st ?eff]
  obtain st' rs where
    run: "send_parts L net msg (callbackURL_of L h msg)
               (StringConfigForKey (Channel msg) configAccountSID [])
               (StringConfigForKey (Channel msg) (ConfigAuthToken L) []) 0 (segments L msg) ?st ?eff =
          send_parts L net msg (callbackURL_of L h msg)
               (StringConfigForKey (Channel msg) configAccountSID [])
               (StringConfigForKey (Channel msg) (ConfigAuthToken L) []) (0 + k) (drop k (segments L msg)) st'
               (?eff\<lparr> sent := sent ?eff @ rs \<rparr>)"
    and len: "length rs = k"
    and reqs: "\<forall>j<k. segment_request L msg (callbackURL_of L h msg)
               (StringConfigForKey (Channel msg) configAccountSID [])
               (StringConfigForKey (Channel msg) (ConfigAuthToken L) []) (0 + j) (segments L msg ! j) = Ok (rs ! j)"
    and stat: "Status st' = (if k = 0 then Status ?st else MsgWired)"
    and ext: "StatusExternalID st' =
             (if (0::nat) = 0 \<and> 0 < k then external_id_of L (net 0 (rs ! 0)) else StatusExternalID ?st)"
    by blast
  have "SendMsg L net h msg =
             send_parts L net msg (callbackURL_of L h msg)
               (StringConfigForKey (Channel msg) configAccountSID [])
               (StringConfigForKey (Channel msg) (ConfigAuthToken L) [])
               k (drop k (segments L msg)) st'
               \<lparr> sent = rs, calls = [NewMsgStatusForID (ID msg) MsgErrored] \<rparr>"
    using run by (simp add: SendMsg_with_credentials [OF c])
  moreover have "\<forall>j<k. request_of L h msg j = Ok (rs ! j)"
    using reqs by (simp add: request_of_def)
  moreover have "Status st' = (if k = 0 then MsgErrored else MsgWired)"
    using stat by (simp add: backend_NewMsgStatusForID_def)
  moreover have "0 < k \<longrightarrow> StatusExternalID st' = external_id_of L (net 0 (rs ! 0))"
    using ext by simp
  ultimately show ?thesis
    using len by blast
qed

lemma requests_snoc:
  assumes "length rs = k" "\<forall>j<k. request_of L h msg j = Ok (rs ! j)" "request_of L h msg k = Ok req"
  shows "\<forall>i<Suc k. request_of L h msg i = Ok ((rs @ [req]) ! i)"
proof (intro allI impI)
  fix i assume "i < Suc k"
  then consider "i < k" | "i = k" by linarith
  then show "request_of L h msg i = Ok ((rs @ [req]) ! i)"
    using assms by cases (simp_all add: nth_append)
qed

lemma SendMsg_rejected_run:
  assumes c: "credentials_present L msg"
    and k: "k < length (segments L msg)"
    and ok: "\<forall>i<k. answer_is (segment_succeeds L) (exchange L net h msg i)"
    and ex: "exchange L net h msg k = Some resp"
    and err: "snd resp \<noteq> None"
    and cls: "RR_Body (fst resp) = None \<or> response_code L resp \<noteq> errorStopped"
  shows "\<exists>st eff. SendMsg L net h msg = (Ok st, eff) \<and>
           length (sent eff) = Suc k \<and>
           (\<forall>i<Suc k. request_of L h msg i = Ok (sent eff ! i)) \<and>
           calls eff = [NewMsgStatusForID (ID msg) MsgErrored] \<and>
           Status st = (if k = 0 then MsgErrored else MsgWired)"
proof -
  let ?cb = "callbackURL_of L h msg"
  let ?sid = "StringConfigForKey (Channel msg) configAccountSID []"
  let ?tok = "StringConfigForKey (Channel msg) (ConfigAuthToken L) []"
  from k have k': "k \<le> length (segments L msg)" by simp
  from SendMsg_prefix [OF c k' ok]
  obtain st' rs where
    run: "SendMsg L net h msg = send_parts L net msg ?cb ?sid ?tok k (drop k (segments L msg)) st'
            \<lparr> sent = rs, calls = [NewMsgStatusForID (ID msg) MsgErrored] \<rparr>"
    and len: "length rs = k"
    and reqs: "\<forall>j<k. request_of L h msg j = Ok (rs ! j)"
    and stat: "Status st' = (if k = 0 then MsgErrored else MsgWired)"
    by blast
  from ex obtain req where
    req: "request_of L h msg k = Ok req" and resp: "resp = net k req"
    by (auto simp: exchange_def split: result.splits)
  from err cls resp have err': "snd (net k req) \<noteq> None"
    and cls': "RR_Body (fst (net k req)) = None \<or> response_code L (net k req) \<noteq> errorStopped"
    by simp_all
  from req have req': "segment_request L msg ?cb ?sid ?tok k (segments L msg ! k) = Ok req"
    by (simp add: request_of_def)
  from send_part_rejected [where net = net and st = st'
      and eff = "\<lparr> sent = rs, calls = [NewMsgStatusForID (ID msg) MsgErrored] \<rparr>", OF req' err' cls']
  obtain st'' where
    step: "send_part L net msg ?cb ?sid ?tok k (segments L msg ! k) st'
             \<lparr> sent = rs, calls = [NewMsgStatusForID (ID msg) MsgErrored] \<rparr> =
           Halt (Ok st'') \<lparr> sent = rs @ [req], calls = [NewMsgStatusForID (ID msg) MsgErrored] \<rparr>"
    and stat': "Status st'' = Status st'"
    by auto
  have d: "drop k (segments L msg) = (segments L msg ! k) # drop (Suc k) (segments L msg)"
    using k by (simp add: Cons_nth_drop_Suc)
  have "SendMsg L net h msg = (Ok st'', \<lparr> sent = rs @ [req], calls = [NewMsgStatusForID (ID msg) MsgErrored] \<rparr>)"
    by (simp add: run d step)
  moreover have "\<forall>i<Suc k. request_of L h msg i = Ok ((rs @ [req]) ! i)"
    by (rule requests_snoc [OF len reqs req])
  ultimately show ?thesis
    using len stat stat' by simp
qed

lemma SendMsg_opted_out_run:
  assumes c: "credentials_present L msg"
    and k: "k < length (segments L msg)"
    and ok: "\<forall>i<k. answer_is (segment_succeeds L) (exchange L net h msg i)"
    and ex: "exchange L net h msg k = Some resp"
    and err: "snd resp \<noteq> None"
    and body: "RR_Body (fst resp) \<noteq> None"
    and code: "response_code L resp = errorStopped"
  shows "\<exists>st eff. SendMsg L net h msg = (Ok st, eff) \<and>
           Status st = MsgFailed \<and>
           calls eff = [NewMsgStatusForID (ID msg) MsgErrored, StopMsgContact (ID msg)] \<and>
           length (sent eff) = Suc k \<and>
           (\<forall>i<Suc k. request_of L h msg i = Ok (sent eff ! i))"
proof -
  let ?cb = "callbackURL_of L h msg"
  let ?sid = "StringConfigForKey (Channel msg) configAccountSID []"
  let ?tok = "StringConfigForKey (Channel msg) (ConfigAuthToken L) []"
  from k have k': "k \<le> length (segments L msg)" by simp
  from SendMsg_prefix [OF c k' ok]
  obtain st' rs where
    run: "SendMsg L net h msg = send_parts L net msg ?cb ?sid ?tok k (drop k (segments L msg)) st'
            \<lparr> sent = rs, calls = [NewMsgStatusForID (ID msg) MsgErrored] \<rparr>"
    and len: "length rs = k"
    and reqs: "\<forall>j<k. request_of L h msg j = Ok (rs ! j)"
    by blast
  from ex obtain req where
    req: "request_of L h msg k = Ok req" and resp: "resp = net k req"
    by (auto simp: exchange_def split: result.splits)
  from err body code resp have err': "snd (net k req) \<noteq> None"
    and body': "RR_Body (fst (net k req)) \<noteq> None"
    and code': "response_code L (net k req) = errorStopped"
    by simp_all
  from req have req': "segment_request L msg ?cb ?sid ?tok k (segments L msg ! k) = Ok req"
    by (simp add: request_of_def)
  from send_part_opted_out [where net = net and st = st'
      and eff = "\<lparr> sent = rs, calls = [NewMsgStatusForID (ID msg) MsgErrored] \<rparr>", OF req' err' body' code']
  obtain st'' where
    step: "send_part L net msg ?cb ?sid ?tok k (segments L msg ! k) st'
             \<lparr> sent = rs, calls = [NewMsgStatusForID (ID msg) MsgErrored] \<rparr> =
           Halt (Ok st'')
             \<lparr> sent = rs @ [req], calls = [NewMsgStatusForID (ID msg) MsgErrored, StopMsgContact (ID msg)] \<rparr>"
    and stat': "Status st'' = MsgFailed"
    by auto
  have d: "drop k (segments L msg) = (segments L msg ! k) # drop (Suc k) (segments L msg)"
    using k by (simp add: Cons_nth_drop_Suc)
  have "SendMsg L net h msg =
      (Ok st'', \<lparr> sent = rs @ [req], calls = [NewMsgStatusForID (ID msg) MsgErrored, StopMsgContact (ID msg)] \<rparr>)"
    by (simp add: run d step)
  moreover have "\<forall>i<Suc k. request_of L h msg i = Ok ((rs @ [req]) ! i)"
    by (rule requests_snoc [OF len reqs req])
  ultimately show ?thesis
    using len stat' by simp
qed

lemma SendMsg_success_run:
  assumes c: "credentials_present L msg"
    and ne: "segments L msg \<noteq> []"
    and ok: "\<forall>i<length (segments L msg). answer_is (segment_succeeds L) (exchange L net h msg i)"
  shows "\<exists>st eff. SendMsg L net h msg = (Ok st, eff) \<and>
           Status st = MsgWired \<and>
           Some (StatusExternalID st) = map_option (external_id_of L) (exchange L net h msg 0) \<and>
           calls eff = [NewMsgStatusForID (ID msg) MsgErrored] \<and>
           length (sent eff) = length (segments L msg) \<and>
           (\<forall>i<length (sent eff). request_of L h msg i = Ok (sent eff ! i))"
proof -
  let ?cb = "callbackURL_of L h msg"
  let ?sid = "StringConfigForKey (Channel msg) configAccountSID []"
  let ?tok = "StringConfigForKey (Channel msg) (ConfigAuthToken L) []"
  from ne have pos: "0 < length (segments L msg)" by simp
  from SendMsg_prefix [OF c order_refl ok]
  obtain st' rs where
    run: "SendMsg L net h msg = send_parts L net msg ?cb ?sid ?tok (length (segments L msg))
            (drop (length (segments L msg)) (segments L msg)) st'
            \<lparr> sent = rs, calls = [NewMsgStatusForID (ID msg) MsgErrored] \<rparr>"
    and len: "length rs = length (segments L msg)"
    and reqs: "\<forall>j<length (segments L msg). request_of L h msg j = Ok (rs ! j)"
    and stat: "Status st' = (if length (segments L msg) = 0 then MsgErrored else MsgWired)"
    and ext: "0 < length (segments L msg) \<longrightarrow> StatusExternalID st' = external_id_of L (net 0 (rs ! 0))"
    by blast
  from reqs pos have r0: "request_of L h msg 0 = Ok (rs ! 0)" by simp
  have "SendMsg L net h msg = (Ok st', \<lparr> sent = rs, calls = [NewMsgStatusForID (ID msg) MsgErrored] \<rparr>)"
    by (simp add: run)
  moreover have "Some (StatusExternalID st') = map_option (external_id_of L) (exchange L net h msg 0)"
    using ext pos r0 by (simp add: exchange_def)
  ultimately show ?thesis
    using len reqs stat pos by simp
qed

text \<open>The concrete message and its answers.\<close>

lemma demo_credentials: "credentials_present demo_lib demo_msg"
  by (simp add: credentials_present_def demo_msg_def demo_channel_def mk_channel_def demo_lib_def
      configAccountSID_def)

lemma demo_segments: "segments demo_lib demo_msg = [''hello'', ''world'']"
  by (simp add: segments_def demo_lib_def demo_msg_def)

lemma demo_request_of:
  "i < 2 \<Longrightarrow> \<exists>req. request_of demo_lib demo_handler demo_msg i = Ok req"
  by (simp add: request_of_def segment_request_def segment_form_def demo_msg_def demo_channel_def
      mk_channel_def demo_lib_def Let_def split: prod.splits)

lemma demo_exchange:
  "i < 2 \<Longrightarrow> exchange demo_lib net_all_ok demo_handler demo_msg i
     = Some (if i = 0 then answer_ok ''SM1'' else answer_ok ''SM2'')"
  "i < 2 \<Longrightarrow> exchange demo_lib net_second_rejected demo_handler demo_msg i
     = Some (if i = 0 then answer_ok ''SM1'' else answer_code ''30007'')"
  "i < 2 \<Longrightarrow> exchange demo_lib net_second_stopped demo_handler demo_msg i
     = Some (if i = 0 then answer_ok ''SM1'' else answer_code ''21610'')"
  "i < 2 \<Longrightarrow> exchange demo_lib net_first_unreachable demo_handler demo_msg i
     = Some (if i = 0 then answer_no_response else answer_ok ''SM2'')"
  "i < 2 \<Longrightarrow> exchange demo_lib (net_first_ok_with_code code) demo_handler demo_msg i
     = Some (if i = 0 then answer_ok_with_code code else answer_ok ''SM2'')"
  using demo_request_of [of i]
  by (auto simp: exchange_def net_all_ok_def net_second_rejected_def net_second_stopped_def
        net_first_unreachable_def net_first_ok_with_code_def)

lemma demo_answers:
  "segment_succeeds demo_lib (answer_ok ''SM1'')"
  "segment_succeeds demo_lib (answer_ok ''SM2'')"
  "segment_succeeds demo_lib (answer_ok_with_code ''21610'')"
  "segment_succeeds demo_lib (answer_ok_with_code ''30007'')"
  "external_id_of demo_lib (answer_ok ''SM1'') = ''SM1''"
  by (simp_all add: segment_succeeds_def external_id_of_def answer_ok_def answer_ok_with_code_def
      body_bytes_def demo_lib_def)

lemma demo_codes:
  "response_code demo_lib (answer_code ''30007'') = 30007"
  "response_code demo_lib (answer_code ''21610'') = 21610"
  "response_code demo_lib (answer_ok_with_code ''30007'') = 30007"
  "response_code demo_lib (answer_ok_with_code ''21610'') = 21610"
  "response_code demo_lib answer_no_response = 0"
  by (simp_all add: response_code_def answer_code_def answer_ok_with_code_def answer_no_response_def
      body_bytes_def demo_lib_def)

lemma demo_answer_shapes:
  "snd (answer_code code) \<noteq> None" "RR_Body (fst (answer_code code)) \<noteq> None"
  "snd (answer_ok_with_code code) = None" "RR_Body (fst (answer_ok_with_code code)) \<noteq> None"
  "snd answer_no_response \<noteq> None" "RR_Body (fst answer_no_response) = None"
  by (simp_all add: answer_code_def answer_ok_with_code_def answer_no_response_def)

lemma demo_all_succeed:
  "\<forall>i<length (segments demo_lib demo_msg).
      answer_is (segment_succeeds demo_lib) (exchange demo_lib (net_first_ok_with_code code) demo_handler demo_msg i)"
  if "code = ''21610'' \<or> code = ''30007''"
  using that by (auto simp: demo_segments demo_exchange answer_is_def demo_answers)

text \<open>
  C1, as stated, fails at two sends of two segments. In the first, the answer to the first
  segment comes without an error and its body carries the code 30007 next to an external
  identifier: the send does not halt, the second segment is transmitted. In the second,
  the first segment succeeds and the call for the second returns an error with a body
  carrying the code 30007: the send halts, and the returned status is Wired, not Errored.
\<close>

theorem C1_counterexample:
  "exchange demo_lib (net_first_ok_with_code ''30007'') demo_handler demo_msg 0 = Some (answer_ok_with_code ''30007'') \<and>
   response_code demo_lib (answer_ok_with_code ''30007'') = 30007 \<and>
   (30007 :: int) \<noteq> 0 \<and> 30007 \<noteq> errorStopped \<and>
   length (sent (snd (SendMsg demo_lib (net_first_ok_with_code ''30007'') demo_handler demo_msg))) = 2 \<and>
   exchange demo_lib net_second_rejected demo_handler demo_msg 0 = Some (answer_ok ''SM1'') \<and>
   exchange demo_lib net_second_rejected demo_handler demo_msg 1 = Some (answer_code ''30007'') \<and>
   snd (answer_code ''30007'') \<noteq> None \<and>
   response_code demo_lib (answer_code ''30007'') = 30007 \<and>
   length (sent (snd (SendMsg demo_lib net_second_rejected demo_handler demo_msg))) = 2 \<and>
   result_status (fst (SendMsg demo_lib net_second_rejected demo_handler demo_msg)) = Some MsgWired \<and>
   result_status (fst (SendMsg demo_lib net_second_rejected demo_handler demo_msg)) \<noteq> Some MsgErrored"
proof -
  have ne: "segments demo_lib demo_msg \<noteq> []" by (simp add: demo_segments)
  from SendMsg_success_run [OF demo_credentials ne demo_all_succeed [of "''30007''"]]
  have a: "length (sent (snd (SendMsg demo_lib (net_first_ok_with_code ''30007'') demo_handler demo_msg))) = 2"
    by (auto simp: demo_segments)
  have e0: "exchange demo_lib net_second_rejected demo_handler demo_msg 0 = Some (answer_ok ''SM1'')"
    and e1: "exchange demo_lib net_second_rejected demo_handler demo_msg 1 = Some (answer_code ''30007'')"
    by (simp_all add: demo_exchange)
  have ok: "\<forall>i<1. answer_is (segment_succeeds demo_lib) (exchange demo_lib net_second_rejected demo_handler demo_msg i)"
    by (simp add: e0 answer_is_def demo_answers)
  have k: "1 < length (segments demo_lib demo_msg)" by (simp add: demo_segments)
  have cls: "RR_Body (fst (answer_code ''30007'')) = None \<or>
             response_code demo_lib (answer_code ''30007'') \<noteq> errorStopped"
    by (simp add: demo_codes errorStopped_def)
  from SendMsg_rejected_run [OF demo_credentials k ok e1 demo_answer_shapes(1) cls]
  have b: "result_status (fst (SendMsg demo_lib net_second_rejected demo_handler demo_msg)) = Some MsgWired \<and>
      length (sent (snd (SendMsg demo_lib net_second_rejected demo_handler demo_msg))) = 2"
    by (auto simp: result_status_def)
  show ?thesis
    using a b e0 e1
    by (simp add: demo_exchange demo_codes demo_answer_shapes errorStopped_def)
qed

text \<open>
  C1, as amended. The status is created in the Errored state. When the credentials are
  configured, the segments before segment \<open>k\<close> succeed, and the call for segment \<open>k\<close>
  returns an error, with a body that carries a code other than zero and the opt-out code,
  or with no body or no code read from it, \<open>SendMsg\<close> returns a status and no error after
  exactly the requests of segments \<open>0..k\<close> (none of the later segments is transmitted),
  and the contact is not stopped; when \<open>k\<close> is the first segment, the returned status is
  Errored.
\<close>

theorem C1_failure_halts_send:
  "credentials_present L msg \<and> k < length (segments L msg) \<and>
   (\<forall>i<k. answer_is (segment_succeeds L) (exchange L net h msg i)) \<and>
   exchange L net h msg k = Some resp \<and> snd resp \<noteq> None \<and>
   ((RR_Body (fst resp) \<noteq> None \<and> response_code L resp \<noteq> 0 \<and> response_code L resp \<noteq> errorStopped) \<or>
    (RR_Body (fst resp) = None \<or> response_code L resp = 0)) \<longrightarrow>
     (\<exists>st eff. SendMsg L net h msg = (Ok st, eff) \<and>
        length (sent eff) = Suc k \<and>
        (\<forall>i<Suc k. request_of L h msg i = Ok (sent eff ! i)) \<and>
        calls eff = [NewMsgStatusForID (ID msg) MsgErrored] \<and>
        (k = 0 \<longrightarrow> Status st = MsgErrored))"
proof
  assume a: "credentials_present L msg \<and> k < length (segments L msg) \<and>
   (\<forall>i<k. answer_is (segment_succeeds L) (exchange L net h msg i)) \<and>
   exchange L net h msg k = Some resp \<and> snd resp \<noteq> None \<and>
   ((RR_Body (fst resp) \<noteq> None \<and> response_code L resp \<noteq> 0 \<and> response_code L resp \<noteq> errorStopped) \<or>
    (RR_Body (fst resp) = None \<or> response_code L resp = 0))"
  then have c: "credentials_present L msg" and k: "k < length (segments L msg)"
    and ok: "\<forall>i<k. answer_is (segment_succeeds L) (exchange L net h msg i)"
    and ex: "exchange L net h msg k = Some resp" and err: "snd resp \<noteq> None"
    by simp_all
  from a have cls: "RR_Body (fst resp) = None \<or> response_code L resp \<noteq> errorStopped"
    by (auto simp: errorStopped_def)
  from SendMsg_rejected_run [OF c k ok ex err cls]
  obtain st eff where r: "SendMsg L net h msg = (Ok st, eff)" "length (sent eff) = Suc k"
    "\<forall>i<Suc k. request_of L h msg i = Ok (sent eff ! i)"
    "calls eff = [NewMsgStatusForID (ID msg) MsgErrored]"
    "Status st = (if k = 0 then MsgErrored else MsgWired)"
    by blast
  from r(5) have "k = 0 \<longrightarrow> Status st = MsgErrored" by simp
  with r(1-4) show "\<exists>st eff. SendMsg L net h msg = (Ok st, eff) \<and>
        length (sent eff) = Suc k \<and>
        (\<forall>i<Suc k. request_of L h msg i = Ok (sent eff ! i)) \<and>
        calls eff = [NewMsgStatusForID (ID msg) MsgErrored] \<and>
        (k = 0 \<longrightarrow> Status st = MsgErrored)"
    by blast
qed

text \<open>
  The amended C1 at two sends of two segments: the first segment unreachable (an error and
  no body; Errored, one request), and the call for the second segment returning an error
  with a body carrying the code 30007 (halted after two requests, contact not stopped).
\<close>

theorem C1_failure_halts_send_witness:
  "credentials_present demo_lib demo_msg \<and>
   length (segments demo_lib demo_msg) = 2 \<and>
   exchange demo_lib net_first_unreachable demo_handler demo_msg 0 = Some answer_no_response \<and>
   snd answer_no_response \<noteq> None \<and> RR_Body (fst answer_no_response) = None \<and>
   result_status (fst (SendMsg demo_lib net_first_unreachable demo_handler demo_msg)) = Some MsgErrored \<and>
   length (sent (snd (SendMsg demo_lib net_first_unreachable demo_handler demo_msg))) = 1 \<and>
   exchange demo_lib net_second_rejected demo_handler demo_msg 0 = Some (answer_ok ''SM1'') \<and>
   segment_succeeds demo_lib (answer_ok ''SM1'') \<and>
   exchange demo_lib net_second_rejected demo_handler demo_msg 1 = Some (answer_code ''30007'') \<and>
   snd (answer_code ''30007'') \<noteq> None \<and> RR_Body (fst (answer_code ''30007'')) \<noteq> None \<and>
   response_code demo_lib (answer_code ''30007'') = 30007 \<and>
   length (sent (snd (SendMsg demo_lib net_second_rejected demo_handler demo_msg))) = 2 \<and>
   calls (snd (SendMsg demo_lib net_second_rejected demo_handler demo_msg)) = [NewMsgStatusForID (ID demo_msg) MsgErrored]"
proof -
  have u0: "exchange demo_lib net_first_unreachable demo_handler demo_msg 0 = Some answer_no_response"
    and e0: "exchange demo_lib net_second_rejected demo_handler demo_msg 0 = Some (answer_ok ''SM1'')"
    and e1: "exchange demo_lib net_second_rejected demo_handler demo_msg 1 = Some (answer_code ''30007'')"
    by (simp_all add: demo_exchange)
  have h0: "credentials_present demo_lib demo_msg \<and> 0 < length (segments demo_lib demo_msg) \<and>
      (\<forall>i<0. answer_is (segment_succeeds demo_lib) (exchange demo_lib net_first_unreachable demo_handler demo_msg i)) \<and>
      exchange demo_lib net_first_unreachable demo_handler demo_msg 0 = Some answer_no_response \<and>
      snd answer_no_response \<noteq> None \<and>
      ((RR_Body (fst answer_no_response) \<noteq> None \<and> response_code demo_lib answer_no_response \<noteq> 0 \<and>
        response_code demo_lib answer_no_response \<noteq> errorStopped) \<or>
       (RR_Body (fst answer_no_response) = None \<or> response_code demo_lib answer_no_response = 0))"
    using u0 by (simp add: demo_credentials demo_segments demo_answer_shapes)
  have h1: "credentials_present demo_lib demo_msg \<and> 1 < length (segments demo_lib demo_msg) \<and>
      (\<forall>i<1. answer_is (segment_succeeds demo_lib) (exchange demo_lib net_second_rejected demo_handler demo_msg i)) \<and>
      exchange demo_lib net_second_rejected demo_handler demo_msg 1 = Some (answer_code ''30007'') \<and>
      snd (answer_code ''30007'') \<noteq> None \<and>
      ((RR_Body (fst (answer_code ''30007'')) \<noteq> None \<and> response_code demo_lib (answer_code ''30007'') \<noteq> 0 \<and>
        response_code demo_lib (answer_code ''30007'') \<noteq> errorStopped) \<or>
       (RR_Body (fst (answer_code ''30007'')) = None \<or> response_code demo_lib (answer_code ''30007'') = 0))"
    using e0 e1
    by (simp add: demo_credentials demo_segments answer_is_def demo_answers demo_answer_shapes demo_codes
        errorStopped_def)
  from C1_failure_halts_send [where L = demo_lib and msg = demo_msg and k = 0
      and net = net_first_unreachable and h = demo_handler and resp = answer_no_response] h0
  have r0: "result_status (fst (SendMsg demo_lib net_first_unreachable demo_handler demo_msg)) = Some MsgErrored \<and>
      length (sent (snd (SendMsg demo_lib net_first_unreachable demo_handler demo_msg))) = 1"
    by (auto simp: result_status_def)
  from C1_failure_halts_send [where L = demo_lib and msg = demo_msg and k = 1
      and net = net_second_rejected and h = demo_handler and resp = "answer_code ''30007''"] h1
  have r1: "length (sent (snd (SendMsg demo_lib net_second_rejected demo_handler demo_msg))) = 2 \<and>
      calls (snd (SendMsg demo_lib net_second_rejected demo_handler demo_msg)) = [NewMsgStatusForID (ID demo_msg) MsgErrored]"
    by auto
  show ?thesis
    using u0 e0 e1 r0 r1
    by (simp add: demo_credentials demo_segments demo_answers demo_answer_shapes demo_codes)
qed

text \<open>
  C7, as stated, fails: when the answer to the first segment comes without an error and its
  body carries the opt-out code next to an external identifier, the code is not read; the
  send goes on, the returned status is Wired and the contact is not stopped.
\<close>

theorem C7_counterexample:
  "exchange demo_lib (net_first_ok_with_code ''21610'') demo_handler demo_msg 0 = Some (answer_ok_with_code ''21610'') \<and>
   response_code demo_lib (answer_ok_with_code ''21610'') = errorStopped \<and>
   result_status (fst (SendMsg demo_lib (net_first_ok_with_code ''21610'') demo_handler demo_msg)) = Some MsgWired \<and>
   result_status (fst (SendMsg demo_lib (net_first_ok_with_code ''21610'') demo_handler demo_msg)) \<noteq> Some MsgFailed \<and>
   calls (snd (SendMsg demo_lib (net_first_ok_with_code ''21610'') demo_handler demo_msg))
     = [NewMsgStatusForID (ID demo_msg) MsgErrored] \<and>
   count_list (calls (snd (SendMsg demo_lib (net_first_ok_with_code ''21610'') demo_handler demo_msg)))
     (StopMsgContact (ID demo_msg)) = 0"
proof -
  have ne: "segments demo_lib demo_msg \<noteq> []" by (simp add: demo_segments)
  from SendMsg_success_run [OF demo_credentials ne demo_all_succeed [of "''21610''"]]
  have a: "result_status (fst (SendMsg demo_lib (net_first_ok_with_code ''21610'') demo_handler demo_msg)) = Some MsgWired \<and>
      calls (snd (SendMsg demo_lib (net_first_ok_with_code ''21610'') demo_handler demo_msg))
        = [NewMsgStatusForID (ID demo_msg) MsgErrored]"
    by (auto simp: result_status_def)
  then show ?thesis
    by (simp add: demo_exchange demo_codes errorStopped_def)
qed

text \<open>
  C7, as amended. When the credentials are configured, the segments before segment \<open>k\<close>
  succeed, and the call for segment \<open>k\<close> returns an error together with a body that
  carries the opt-out error code, \<open>SendMsg\<close> returns the status Failed, and the backend
  calls of the send are the creation of the status followed by exactly one call that stops
  the contact, however many segments the message has.
\<close>

theorem C7_opt_out_stops_contact_once:
  "credentials_present L msg \<and> k < length (segments L msg) \<and>
   (\<forall>i<k. answer_is (segment_succeeds L) (exchange L net h msg i)) \<and>
   exchange L net h msg k = Some resp \<and> snd resp \<noteq> None \<and> RR_Body (fst resp) \<noteq> None \<and>
   response_code L resp = errorStopped \<longrightarrow>
     (\<exists>st eff. SendMsg L net h msg = (Ok st, eff) \<and>
        Status st = MsgFailed \<and>
        calls eff = [NewMsgStatusForID (ID msg) MsgErrored, StopMsgContact (ID msg)] \<and>
        count_list (calls eff) (StopMsgContact (ID msg)) = 1 \<and>
        length (sent eff) = Suc k)"
proof
  assume a: "credentials_present L msg \<and> k < length (segments L msg) \<and>
   (\<forall>i<k. answer_is (segment_succeeds L) (exchange L net h msg i)) \<and>
   exchange L net h msg k = Some resp \<and> snd resp \<noteq> None \<and> RR_Body (fst resp) \<noteq> None \<and>
   response_code L resp = errorStopped"
  then have c: "credentials_present L msg" and k: "k < length (segments L msg)"
    and ok: "\<forall>i<k. answer_is (segment_succeeds L) (exchange L net h msg i)"
    and ex: "exchange L net h msg k = Some resp" and err: "snd resp \<noteq> None"
    and body: "RR_Body (fst resp) \<noteq> None" and code: "response_code L resp = errorStopped"
    by simp_all
  from SendMsg_opted_out_run [OF c k ok ex err body code]
  obtain st eff where r: "SendMsg L net h msg = (Ok st, eff)" "Status st = MsgFailed"
    "calls eff = [NewMsgStatusForID (ID msg) MsgErrored, StopMsgContact (ID msg)]"
    "length (sent eff) = Suc k"
    by blast
  from r(3) have "count_list (calls eff) (StopMsgContact (ID msg)) = 1" by simp
  with r show "\<exists>st eff. SendMsg L net h msg = (Ok st, eff) \<and>
        Status st = MsgFailed \<and>
        calls eff = [NewMsgStatusForID (ID msg) MsgErrored, StopMsgContact (ID msg)] \<and>
        count_list (calls eff) (StopMsgContact (ID msg)) = 1 \<and>
        length (sent eff) = Suc k"
    by blast
qed

text \<open>
  The amended C7 at a send of two segments whose second call returns an error with a body
  carrying the opt-out code.
\<close>

theorem C7_opt_out_stops_contact_once_witness:
  "credentials_present demo_lib demo_msg \<and>
   length (segments demo_lib demo_msg) = 2 \<and>
   exchange demo_lib net_second_stopped demo_handler demo_msg 0 = Some (answer_ok ''SM1'') \<and>
   segment_succeeds demo_lib (answer_ok ''SM1'') \<and>
   exchange demo_lib net_second_stopped demo_handler demo_msg 1 = Some (answer_code ''21610'') \<and>
   snd (answer_code ''21610'') \<noteq> None \<and> RR_Body (fst (answer_code ''21610'')) \<noteq> None \<and>
   response_code demo_lib (answer_code ''21610'') = errorStopped \<and>
   result_status (fst (SendMsg demo_lib net_second_stopped demo_handler demo_msg)) = Some MsgFailed \<and>
   calls (snd (SendMsg demo_lib net_second_stopped demo_handler demo_msg))
     = [NewMsgStatusForID (ID demo_msg) MsgErrored, StopMsgContact (ID demo_msg)] \<and>
   length (sent (snd (SendMsg demo_lib net_second_stopped demo_handler demo_msg))) = 2"
proof -
  have e0: "exchange demo_lib net_second_stopped demo_handler demo_msg 0 = Some (answer_ok ''SM1'')"
    and e1: "exchange demo_lib net_second_stopped demo_handler demo_msg 1 = Some (answer_code ''21610'')"
    by (simp_all add: demo_exchange)
  have h1: "credentials_present demo_lib demo_msg \<and> 1 < length (segments demo_lib demo_msg) \<and>
      (\<forall>i<1. answer_is (segment_succeeds demo_lib) (exchange demo_lib net_second_stopped demo_handler demo_msg i)) \<and>
      exchange demo_lib net_second_stopped demo_handler demo_msg 1 = Some (answer_code ''21610'') \<and>
      snd (answer_code ''21610'') \<noteq> None \<and> RR_Body (fst (answer_code ''21610'')) \<noteq> None \<and>
      response_code demo_lib (answer_code ''21610'') = errorStopped"
    using e0 e1
    by (simp add: demo_credentials demo_segments answer_is_def demo_answers demo_answer_shapes demo_codes
        errorStopped_def)
  from C7_opt_out_stops_contact_once [where L = demo_lib and msg = demo_msg and k = 1
      and net = net_second_stopped and h = demo_handler and resp = "answer_code ''21610''"] h1
  have r1: "result_status (fst (SendMsg demo_lib net_second_stopped demo_handler demo_msg)) = Some MsgFailed \<and>
      calls (snd (SendMsg demo_lib net_second_stopped demo_handler demo_msg))
        = [NewMsgStatusForID (ID demo_msg) MsgErrored, StopMsgContact (ID demo_msg)] \<and>
      length (sent (snd (SendMsg demo_lib net_second_stopped demo_handler demo_msg))) = 2"
    by (auto simp: result_status_def)
  show ?thesis
    using e0 e1 r1
    by (simp add: demo_credentials demo_segments demo_answers demo_answer_shapes demo_codes errorStopped_def)
qed

text \<open>
  C8. In every send, each transmitted request is the one built for its segment and carries
  that segment as its body; the first request of a message with attachments carries, under
  the key \<open>MediaUrl\<close>, the media URL of the first attachment, and every other request has no
  \<open>MediaUrl\<close> entry. When the credentials are configured, there is at least one segment and
  every segment succeeds, the returned status is Wired, its external identifier is the one
  of the answer to the first segment, and one request per segment was transmitted.
\<close>

theorem C8_first_segment_only:
  "(\<forall>i<length (sent (snd (SendMsg L net h msg))).
      map_of (Form (sent (snd (SendMsg L net h msg)) ! i)) ''MediaUrl'' =
        (if i = 0 \<and> Attachments msg \<noteq> [] then Some [snd (SplitAttachment L (Attachments msg ! 0))]
         else None) \<and>
      map_of (Form (sent (snd (SendMsg L net h msg)) ! i)) ''Body'' = Some [segments L msg ! i] \<and>
      request_of L h msg i = Ok (sent (snd (SendMsg L net h msg)) ! i)) \<and>
   (credentials_present L msg \<and> segments L msg \<noteq> [] \<and>
    (\<forall>i<length (segments L msg). answer_is (segment_succeeds L) (exchange L net h msg i)) \<longrightarrow>
      (\<exists>st eff. SendMsg L net h msg = (Ok st, eff) \<and>
         Status st = MsgWired \<and>
         Some (StatusExternalID st) = map_option (external_id_of L) (exchange L net h msg 0) \<and>
         length (sent eff) = length (segments L msg)))"
proof (intro conjI allI impI)
  fix i assume i: "i < length (sent (snd (SendMsg L net h msg)))"
  then show "map_of (Form (sent (snd (SendMsg L net h msg)) ! i)) ''MediaUrl'' =
        (if i = 0 \<and> Attachments msg \<noteq> [] then Some [snd (SplitAttachment L (Attachments msg ! 0))]
         else None)"
    by (rule SendMsg_media)
  from i show "map_of (Form (sent (snd (SendMsg L net h msg)) ! i)) ''Body'' = Some [segments L msg ! i]"
    by (rule SendMsg_body)
  from SendMsg_sent [of L net h msg] i
  show "request_of L h msg i = Ok (sent (snd (SendMsg L net h msg)) ! i)" by simp
next
  assume a: "credentials_present L msg \<and> segments L msg \<noteq> [] \<and>
    (\<forall>i<length (segments L msg). answer_is (segment_succeeds L) (exchange L net h msg i))"
  then have c: "credentials_present L msg" and ne: "segments L msg \<noteq> []"
    and ok: "\<forall>i<length (segments L msg). answer_is (segment_succeeds L) (exchange L net h msg i)"
    by simp_all
  from SendMsg_success_run [OF c ne ok]
  show "\<exists>st eff. SendMsg L net h msg = (Ok st, eff) \<and>
         Status st = MsgWired \<and>
         Some (StatusExternalID st) = map_option (external_id_of L) (exchange L net h msg 0) \<and>
         length (sent eff) = length (segments L msg)"
    by blast
qed

text \<open>
  C8 at a send of two segments with one attachment, answered with the identifiers SM1 and
  SM2: the status is Wired with external identifier SM1, the first request carries the
  media URL of the attachment and the second has none.
\<close>

theorem C8_first_segment_only_witness:
  "credentials_present demo_lib demo_msg \<and>
   segments demo_lib demo_msg = [''hello'', ''world''] \<and>
   Attachments demo_msg = [''image/png:https://x.example/y.png''] \<and>
   exchange demo_lib net_all_ok demo_handler demo_msg 0 = Some (answer_ok ''SM1'') \<and>
   exchange demo_lib net_all_ok demo_handler demo_msg 1 = Some (answer_ok ''SM2'') \<and>
   segment_succeeds demo_lib (answer_ok ''SM1'') \<and> segment_succeeds demo_lib (answer_ok ''SM2'') \<and>
   result_status (fst (SendMsg demo_lib net_all_ok demo_handler demo_msg)) = Some MsgWired \<and>
   result_external_id (fst (SendMsg demo_lib net_all_ok demo_handler demo_msg)) = Some ''SM1'' \<and>
   length (sent (snd (SendMsg demo_lib net_all_ok demo_handler demo_msg))) = 2 \<and>
   map_of (Form (sent (snd (SendMsg demo_lib net_all_ok demo_handler demo_msg)) ! 0)) ''MediaUrl''
     = Some [''https://x.example/y.png''] \<and>
   map_of (Form (sent (snd (SendMsg demo_lib net_all_ok demo_handler demo_msg)) ! 1)) ''MediaUrl'' = None \<and>
   map_of (Form (sent (snd (SendMsg demo_lib net_all_ok demo_handler demo_msg)) ! 0)) ''Body'' = Some [''hello''] \<and>
   map_of (Form (sent (snd (SendMsg demo_lib net_all_ok demo_handler demo_msg)) ! 1)) ''Body'' = Some [''world'']"
proof -
  have e0: "exchange demo_lib net_all_ok demo_handler demo_msg 0 = Some (answer_ok ''SM1'')"
    and e1: "exchange demo_lib net_all_ok demo_handler demo_msg 1 = Some (answer_ok ''SM2'')"
    by (simp_all add: demo_exchange)
  have ok: "\<forall>i<length (segments demo_lib demo_msg).
      answer_is (segment_succeeds demo_lib) (exchange demo_lib net_all_ok demo_handler demo_msg i)"
    by (simp add: demo_segments demo_exchange answer_is_def demo_answers)
  note inst = C8_first_segment_only [where L = demo_lib and msg = demo_msg
      and net = net_all_ok and h = demo_handler]
  from inst ok
  have r: "result_status (fst (SendMsg demo_lib net_all_ok demo_handler demo_msg)) = Some MsgWired \<and>
      result_external_id (fst (SendMsg demo_lib net_all_ok demo_handler demo_msg)) = Some ''SM1'' \<and>
      length (sent (snd (SendMsg demo_lib net_all_ok demo_handler demo_msg))) = 2"
    using e0 by (auto simp: result_status_def result_external_id_def demo_credentials demo_segments demo_answers)
  then have len: "length (sent (snd (SendMsg demo_lib net_all_ok demo_handler demo_msg))) = 2" by simp
  have att: "Attachments demo_msg = [''image/png:https://x.example/y.png'']"
    and split: "snd (SplitAttachment demo_lib ''image/png:https://x.example/y.png'') = ''https://x.example/y.png''"
    by (simp_all add: demo_msg_def demo_lib_def after_colon_def)
  from inst len
  have m: "map_of (Form (sent (snd (SendMsg demo_lib net_all_ok demo_handler demo_msg)) ! 0)) ''MediaUrl''
        = Some [''https://x.example/y.png''] \<and>
      map_of (Form (sent (snd (SendMsg demo_lib net_all_ok demo_handler demo_msg)) ! 1)) ''MediaUrl'' = None \<and>
      map_of (Form (sent (snd (SendMsg demo_lib net_all_ok demo_handler demo_msg)) ! 0)) ''Body'' = Some [''hello''] \<and>
      map_of (Form (sent (snd (SendMsg demo_lib net_all_ok demo_handler demo_msg)) ! 1)) ''Body'' = Some [''world'']"
    by (simp add: att split demo_segments)
  show ?thesis
    using e0 e1 r m by (simp add: demo_credentials demo_segments demo_answers att)
qed

end
